theory Spec2Isabelle
  imports Complex_Main "HOL-Library.AList" "HOL-Library.Sublist"
begin

section \<open>Python values\<close>

text \<open>
  The program is \<^verbatim>\<open>src/autometer.py\<close>. Everything it computes on comes out of
  \<^verbatim>\<open>response.json()\<close>, so the values are the ones \<^verbatim>\<open>json.loads\<close> builds: \<^verbatim>\<open>None\<close>,
  booleans, unbounded integers, floats, strings, lists and dictionaries with string keys.

  \<^item> A finite float is the rational number it denotes; \<^verbatim>\<open>NaN\<close> and the two infinities
    (which \<^verbatim>\<open>json.loads\<close> accepts) are kept apart, since \<^verbatim>\<open>round\<close> raises on them.
  \<^item> A \<^verbatim>\<open>str\<close> is the list of the bytes of its UTF-8 encoding: equality and
    \<^verbatim>\<open>str.replace\<close> with ASCII patterns are the same on both sides of that encoding.
  \<^item> A dictionary is an association list in insertion order, its keys distinct, looked
    up with \<open>map_of\<close>.
\<close>

datatype pyfloat = Finite rat | PosInf | NegInf | NaN

datatype json =
    JNull
  | JBool bool
  | JInt int
  | JFloat pyfloat
  | JStr string
  | JList "json list"
  | JDict "(string \<times> json) list"

text \<open>
  The exceptions the program can meet. \<open>SystemExit\<close> is the only one that is not a
  subclass of \<^verbatim>\<open>Exception\<close>; \<open>UnboundLocalError\<close> is a subclass of \<^verbatim>\<open>NameError\<close>;
  \<open>OSError\<close> is what opening a file raises when it cannot be opened.
  A failed HTTP request (\<^verbatim>\<open>requests.exceptions.RequestException\<close>) is not listed: every
  function that sends a request catches it on the spot, see \<open>http_result\<close> below.
\<close>

datatype exn =
    SystemExit int
  | ValueError string
  | KeyError json
  | IndexError
  | TypeError
  | AttributeError
  | OverflowError
  | UnboundLocalError string
  | OSError

definition is_Exception :: "exn \<Rightarrow> bool" where
  "is_Exception e = (case e of SystemExit _ \<Rightarrow> False | _ \<Rightarrow> True)"

definition is_NameError :: "exn \<Rightarrow> bool" where
  "is_NameError e = (case e of UnboundLocalError _ \<Rightarrow> True | _ \<Rightarrow> False)"

text \<open>Truth value testing, as \<^verbatim>\<open>if x\<close> and \<^verbatim>\<open>x and y\<close> do it.\<close>

fun py_truthy :: "json \<Rightarrow> bool" where
  "py_truthy JNull = False"
| "py_truthy (JBool t) = t"
| "py_truthy (JInt i) = (i \<noteq> 0)"
| "py_truthy (JFloat f) = (f \<noteq> Finite 0)"
| "py_truthy (JStr s) = (s \<noteq> [])"
| "py_truthy (JList xs) = (xs \<noteq> [])"
| "py_truthy (JDict kvs) = (kvs \<noteq> [])"

text \<open>\<^verbatim>\<open>obj.get(key, default)\<close>: only a dictionary has the method.\<close>

fun py_get :: "json \<Rightarrow> string \<Rightarrow> json \<Rightarrow> exn + json" where
  "py_get (JDict kvs) k d = Inr (case map_of kvs k of None \<Rightarrow> d | Some v \<Rightarrow> v)"
| "py_get _ k d = Inl AttributeError"

text \<open>
  \<^verbatim>\<open>obj[key]\<close> with a string key: \<^verbatim>\<open>KeyError\<close> on a dictionary without it,
  \<^verbatim>\<open>TypeError\<close> on everything else (a list or a string wants an integer, the rest is not
  subscriptable).
\<close>

fun py_item :: "json \<Rightarrow> string \<Rightarrow> exn + json" where
  "py_item (JDict kvs) k =
     (case map_of kvs k of None \<Rightarrow> Inl (KeyError (JStr k)) | Some v \<Rightarrow> Inr v)"
| "py_item _ k = Inl TypeError"

text \<open>The characters of a string: a lead byte with the continuation bytes after it.\<close>

definition is_continuation :: "char \<Rightarrow> bool" where
  "is_continuation ch = (128 \<le> (of_char ch :: nat) \<and> (of_char ch :: nat) < 192)"

function utf8_chars :: "string \<Rightarrow> string list" where
  "utf8_chars [] = []"
| "utf8_chars (x # xs) =
     (x # takeWhile is_continuation xs) # utf8_chars (dropWhile is_continuation xs)"
  by pat_completeness auto
termination
  by (relation "measure length") (auto simp: length_dropWhile_le less_Suc_eq_le)

text \<open>
  \<^verbatim>\<open>obj[0]\<close>: the first element of a list, the first character of a string,
  \<^verbatim>\<open>IndexError\<close> when there is none; a dictionary of string keys has no key \<open>0\<close>.
\<close>

fun py_first :: "json \<Rightarrow> exn + json" where
  "py_first (JList xs) = (case xs of [] \<Rightarrow> Inl IndexError | x # _ \<Rightarrow> Inr x)"
| "py_first (JStr s) = (case utf8_chars s of [] \<Rightarrow> Inl IndexError | x # _ \<Rightarrow> Inr (JStr x))"
| "py_first (JDict kvs) = Inl (KeyError (JInt 0))"
| "py_first _ = Inl TypeError"

text \<open>
  What a \<^verbatim>\<open>for\<close> loop or a comprehension iterates over: the elements of a list, the keys
  of a dictionary, the characters of a string; anything else is not iterable.
\<close>

fun py_iter :: "json \<Rightarrow> exn + json list" where
  "py_iter (JList xs) = Inr xs"
| "py_iter (JDict kvs) = Inr (map (\<lambda>kv. JStr (fst kv)) kvs)"
| "py_iter (JStr s) = Inr (map JStr (utf8_chars s))"
| "py_iter _ = Inl TypeError"

text \<open>
  \<^verbatim>\<open>round(x)\<close> with one argument. On a float CPython rounds to the nearest integer and
  takes the even one of two that are equally near.
\<close>

definition round_half_even :: "rat \<Rightarrow> int" where
  "round_half_even x =
     (let f = \<lfloor>x\<rfloor>; d = x - of_int f
      in if d < 1 / 2 then f
         else if 1 / 2 < d then f + 1
         else if even f then f else f + 1)"

fun py_round :: "json \<Rightarrow> exn + int" where
  "py_round (JInt i) = Inr i"
| "py_round (JBool t) = Inr (if t then 1 else 0)"
| "py_round (JFloat (Finite q)) = Inr (round_half_even q)"
| "py_round (JFloat NaN) = Inl (ValueError ''cannot convert float NaN to integer'')"
| "py_round (JFloat PosInf) = Inl OverflowError"
| "py_round (JFloat NegInf) = Inl OverflowError"
| "py_round _ = Inl TypeError"

text \<open>
  \<^verbatim>\<open>s.replace(old, new)\<close> for a non-empty \<open>old\<close> (the program only passes literals):
  left to right, occurrences that do not overlap.
\<close>

fun py_replace :: "string \<Rightarrow> string \<Rightarrow> string \<Rightarrow> string" where
  "py_replace old new [] = []"
| "py_replace old new (x # xs) =
     (if old \<noteq> [] \<and> prefix old (x # xs)
      then new @ py_replace old new (drop (length old) (x # xs))
      else x # py_replace old new xs)"

text \<open>
  \<^verbatim>\<open>s.split(',')\<close>: the pieces between the commas; never an empty list.
\<close>

fun py_split :: "char \<Rightarrow> string \<Rightarrow> string list" where
  "py_split sep [] = [[]]"
| "py_split sep (x # xs) =
     (if x = sep then [] # py_split sep xs
      else (case py_split sep xs of
              [] \<Rightarrow> [[x]]
            | w # ws \<Rightarrow> (x # w) # ws))"

text \<open>\<^verbatim>\<open>xs[i]\<close> on a list: \<^verbatim>\<open>IndexError\<close> out of range.\<close>

definition list_index :: "'a list \<Rightarrow> nat \<Rightarrow> exn + 'a" where
  "list_index xs i = (if i < length xs then Inr (xs ! i) else Inl IndexError)"

text \<open>
  \<^verbatim>\<open>d.update(other)\<close>: a key already there keeps its place and takes the new value, a new
  key goes to the end.
\<close>

definition dict_update :: "(string \<times> json) list \<Rightarrow> (string \<times> json) list \<Rightarrow> (string \<times> json) list" where
  "dict_update d other = foldl (\<lambda>acc kv. AList.update (fst kv) (snd kv) acc) d other"

text \<open>
  The texts the interpreter itself produces are parameters of the model: \<open>str_json\<close> is
  \<^verbatim>\<open>str(v)\<close> of a value that is not a string, \<open>str_exn\<close> is \<^verbatim>\<open>str(e)\<close> of an exception the
  interpreter raised. A string formats as itself, and \<^verbatim>\<open>str(ValueError(m))\<close> is \<open>m\<close>.
\<close>

record runtime =
  str_json :: "json \<Rightarrow> string"
  str_exn :: "exn \<Rightarrow> string"

definition py_format :: "runtime \<Rightarrow> json \<Rightarrow> string" where
  "py_format rt v = (case v of JStr s \<Rightarrow> s | _ \<Rightarrow> str_json rt v)"

definition py_str :: "runtime \<Rightarrow> exn \<Rightarrow> string" where
  "py_str rt e = (case e of ValueError m \<Rightarrow> m | _ \<Rightarrow> str_exn rt e)"

section \<open>Metering client: \<^verbatim>\<open>get_electricity_vals\<close>\<close>

text \<open>The label \<^verbatim>\<open>'\<close>Elektrichestvo\<^verbatim>\<open>'\<close> in Cyrillic letters, as UTF-8.\<close>

definition electricity_label :: string where
  "electricity_label =
     [CHR 0xD0, CHR 0xAD, CHR 0xD0, CHR 0xBB, CHR 0xD0, CHR 0xB5, CHR 0xD0, CHR 0xBA,
      CHR 0xD1, CHR 0x82, CHR 0xD1, CHR 0x80, CHR 0xD0, CHR 0xB8, CHR 0xD1, CHR 0x87,
      CHR 0xD0, CHR 0xB5, CHR 0xD1, CHR 0x81, CHR 0xD1, CHR 0x82, CHR 0xD0, CHR 0xB2,
      CHR 0xD0, CHR 0xBE]"

text \<open>\<^verbatim>\<open>[round(val) for val in ...]\<close>: stops at the first value \<^verbatim>\<open>round\<close> refuses.\<close>

fun round_all :: "json list \<Rightarrow> exn + int list" where
  "round_all [] = Inr []"
| "round_all (v # vs) =
     (case py_round v of
        Inl e \<Rightarrow> Inl e
      | Inr r \<Rightarrow> (case round_all vs of Inl e \<Rightarrow> Inl e | Inr rs \<Rightarrow> Inr (r # rs)))"

text \<open>
  The inner loop over the meters of one sensor. \<open>Inr (Some rs)\<close> is the \<^verbatim>\<open>return\<close> inside
  the loop, \<open>Inr None\<close> is the loop running to its end.
\<close>

fun scan_meters :: "json list \<Rightarrow> exn + int list option" where
  "scan_meters [] = Inr None"
| "scan_meters (meter # rest) =
     (case py_get meter ''type'' (JDict []) of
        Inl e \<Rightarrow> Inl e
      | Inr t \<Rightarrow>
          (case py_get t ''name'' JNull of
             Inl e \<Rightarrow> Inl e
           | Inr n \<Rightarrow>
               if n = JStr electricity_label
               then (case py_get meter ''vals'' (JList []) of
                       Inl e \<Rightarrow> Inl e
                     | Inr vals \<Rightarrow>
                         (case py_iter vals of
                            Inl e \<Rightarrow> Inl e
                          | Inr vs \<Rightarrow>
                              (case round_all vs of
                                 Inl e \<Rightarrow> Inl e
                               | Inr rs \<Rightarrow> Inr (Some rs))))
               else scan_meters rest))"

text \<open>The outer loop over the sensors.\<close>

fun scan_sensors :: "json list \<Rightarrow> exn + int list option" where
  "scan_sensors [] = Inr None"
| "scan_sensors (sensor # rest) =
     (case py_get sensor ''meters'' (JList []) of
        Inl e \<Rightarrow> Inl e
      | Inr meters \<Rightarrow>
          (case py_iter meters of
             Inl e \<Rightarrow> Inl e
           | Inr ms \<Rightarrow>
               (case scan_meters ms of
                  Inl e \<Rightarrow> Inl e
                | Inr (Some rs) \<Rightarrow> Inr (Some rs)
                | Inr None \<Rightarrow> scan_sensors rest)))"

definition get_electricity_vals :: "json \<Rightarrow> exn + int list" where
  "get_electricity_vals data =
     (case py_get data ''sensors'' (JList []) of
        Inl e \<Rightarrow> Inl e
      | Inr sensors \<Rightarrow>
          (case py_iter sensors of
             Inl e \<Rightarrow> Inl e
           | Inr ss \<Rightarrow>
               (case scan_sensors ss of
                  Inl e \<Rightarrow> Inl e
                | Inr (Some rs) \<Rightarrow> Inr rs
                | Inr None \<Rightarrow> Inr [])))"

section \<open>The outside world\<close>

text \<open>
  What the program does to the outside is a trace of events, oldest first. The outside
  answers a request with a failure (\<^verbatim>\<open>requests\<close> raises a \<^verbatim>\<open>RequestException\<close>: no
  connection, an HTTP error status at \<^verbatim>\<open>raise_for_status\<close>, a body that is not JSON, which is a
  \<^verbatim>\<open>RequestException\<close> from version 2.27 of \<^verbatim>\<open>requests\<close> on) or
  with the value \<^verbatim>\<open>response.json()\<close> returns. A world gives the answer to the last
  request of a trace, so it may answer the same request differently at different times
  and nothing is assumed about the servers. Once \<^verbatim>\<open>setup_logging\<close> has opened the
  log file, a call of \<^verbatim>\<open>logging\<close> only writes to it and decides nothing: these calls are
  left out. Opening the file is modelled, see \<open>setup_logging\<close> below.
\<close>

type_synonym headers = "(string \<times> string) list"
type_synonym payload = "(string \<times> json) list"

datatype event =
    Post string headers payload
  | Get string
  | SessionNew
  | SessionPost string headers payload
  | SessionClose

datatype http_result = RequestException | Body json

type_synonym world = "event list \<Rightarrow> http_result"

definition request :: "world \<Rightarrow> event \<Rightarrow> event list \<Rightarrow> http_result \<times> event list" where
  "request w e tr = (w (tr @ [e]), tr @ [e])"

datatype session = Session

section \<open>Configuration: \<^verbatim>\<open>setup_environment\<close>\<close>

record env_vars =
  login :: string
  log_file :: string
  saures_pass :: string
  saures_api_url :: string
  meter_id :: string
  mosenergo_lk_url :: string
  mosenergo_pass :: string
  telegram_bot_token :: string
  telegram_chat_id :: string

definition required_env_vars :: "string list" where
  "required_env_vars =
     [''LOGIN'', ''LOG_FILE'', ''SAURES_PASS'', ''SAURES_API_URL'', ''METER_ID'',
      ''MOSENERGO_LK_URL'', ''MOSENERGO_PASS'', ''TELEGRAM_BOT_TOKEN'', ''TELEGRAM_CHAT_ID'']"

text \<open>\<^verbatim>\<open>os.environ.get(var, '')\<close>, the environment being the one after \<^verbatim>\<open>load_dotenv()\<close>.\<close>

definition environ_get :: "(string \<Rightarrow> string option) \<Rightarrow> string \<Rightarrow> string" where
  "environ_get environ var = (case environ var of None \<Rightarrow> [] | Some v \<Rightarrow> v)"

definition setup_environment :: "(string \<Rightarrow> string option) \<Rightarrow> exn + env_vars" where
  "setup_environment environ =
     (let missing_vars = filter (\<lambda>var. environ_get environ var = []) required_env_vars
      in if missing_vars \<noteq> [] then Inl (SystemExit 1)
         else Inr \<lparr>login = environ_get environ ''LOGIN'',
                   log_file = environ_get environ ''LOG_FILE'',
                   saures_pass = environ_get environ ''SAURES_PASS'',
                   saures_api_url = environ_get environ ''SAURES_API_URL'',
                   meter_id = environ_get environ ''METER_ID'',
                   mosenergo_lk_url = environ_get environ ''MOSENERGO_LK_URL'',
                   mosenergo_pass = environ_get environ ''MOSENERGO_PASS'',
                   telegram_bot_token = environ_get environ ''TELEGRAM_BOT_TOKEN'',
                   telegram_chat_id = environ_get environ ''TELEGRAM_CHAT_ID''\<rparr>)"

section \<open>Logging: \<^verbatim>\<open>setup_logging\<close>\<close>

text \<open>
  \<^verbatim>\<open>logging.basicConfig(filename=log_file_path, ...)\<close> opens the file for appending at
  once and raises \<open>OSError\<close> when it cannot. Which paths can be opened is a parameter of
  the model, \<open>can_open\<close>.
\<close>

definition setup_logging :: "(string \<Rightarrow> bool) \<Rightarrow> string \<Rightarrow> exn + unit" where
  "setup_logging can_open log_file_path =
     (if can_open log_file_path then Inr () else Inl OSError)"

section \<open>Notifier: \<^verbatim>\<open>send_telegram_message\<close>\<close>

definition telegram_url :: "string \<Rightarrow> string" where
  "telegram_url token = ''https://api.telegram.org/bot'' @ token @ ''/sendMessage''"

definition telegram_payload :: "string \<Rightarrow> string \<Rightarrow> payload" where
  "telegram_payload chat_id txt =
     [(''chat_id'', JStr chat_id), (''text'', JStr txt), (''parse_mode'', JStr ''Markdown'')]"

definition send_telegram_message ::
  "world \<Rightarrow> string \<Rightarrow> string \<Rightarrow> string \<Rightarrow> event list \<Rightarrow> (exn + bool) \<times> event list" where
  "send_telegram_message w token chat_id txt tr =
     (case request w (Post (telegram_url token) [] (telegram_payload chat_id txt)) tr of
        (RequestException, tr') \<Rightarrow> (Inr False, tr')
      | (Body result, tr') \<Rightarrow>
          (case py_get result ''ok'' JNull of
             Inl e \<Rightarrow> (Inl e, tr')
           | Inr ok \<Rightarrow> (Inr (py_truthy ok), tr')))"

section \<open>Metering and billing clients\<close>

text \<open>
  \<^verbatim>\<open>except (ValueError, KeyError): sys.exit(1)\<close> around the body of a \<^verbatim>\<open>try\<close>: these two
  become \<open>SystemExit\<close>, every other exception passes.
\<close>

definition except_value_key :: "exn + 'a \<Rightarrow> exn + 'a" where
  "except_value_key r =
     (case r of
        Inl (ValueError _) \<Rightarrow> Inl (SystemExit 1)
      | Inl (KeyError _) \<Rightarrow> Inl (SystemExit 1)
      | _ \<Rightarrow> r)"

definition authenticate_saures ::
  "world \<Rightarrow> string \<Rightarrow> string \<Rightarrow> string \<Rightarrow> event list \<Rightarrow> (exn + json) \<times> event list" where
  "authenticate_saures w api_url usr password tr =
     (let saures_login_url = api_url @ ''/login'';
          hdrs = [(''Content-Type'', ''application/x-www-form-urlencoded; charset=utf-8'')];
          data = [(''email'', JStr usr), (''password'', JStr password)]
      in case request w (Post saures_login_url hdrs data) tr of
           (RequestException, tr') \<Rightarrow> (Inl (SystemExit 1), tr')
         | (Body result, tr') \<Rightarrow>
             (except_value_key
                (case py_get result ''status'' JNull of
                   Inl e \<Rightarrow> Inl e
                 | Inr status \<Rightarrow>
                     if status = JStr ''ok''
                     then (case py_item result ''data'' of
                             Inl e \<Rightarrow> Inl e
                           | Inr d \<Rightarrow> py_item d ''sid'')
                     else Inl (SystemExit 1)), tr'))"

definition fetch_saures_meter_data ::
  "runtime \<Rightarrow> world \<Rightarrow> string \<Rightarrow> json \<Rightarrow> string \<Rightarrow> string \<Rightarrow> event list
     \<Rightarrow> (exn + json) \<times> event list" where
  "fetch_saures_meter_data rt w api_url sid meter current_time tr =
     (let saures_meters_url =
            api_url @ ''/object/meters?sid='' @ py_format rt sid @ ''&id='' @ meter
              @ ''&date='' @ current_time
      in case request w (Get saures_meters_url) tr of
           (RequestException, tr') \<Rightarrow> (Inl (SystemExit 1), tr')
         | (Body result, tr') \<Rightarrow>
             (except_value_key
                (case py_get result ''status'' JNull of
                   Inl e \<Rightarrow> Inl e
                 | Inr status \<Rightarrow>
                     if status = JStr ''ok'' then py_item result ''data''
                     else Inl (SystemExit 1)), tr'))"

definition user_agent :: string where
  "user_agent =
     ''Mozilla/5.0 (Windows NT 10.0; Win64; x64) AppleWebKit/537.36 ''
       @ ''(KHTML, like Gecko) Chrome/136.0.0.0 Safari/537.36''"

text \<open>\<^verbatim>\<open>json.dumps\<close> of the device descriptor; \<open>CHR 0x22\<close> is the double quote.\<close>

definition quoted :: "string \<Rightarrow> string" where
  "quoted s = [CHR 0x22] @ s @ [CHR 0x22]"

definition device_info :: string where
  "device_info =
     ''{'' @ quoted ''appver'' @ '': '' @ quoted ''1.40.0'' @ '', ''
       @ quoted ''type'' @ '': '' @ quoted ''browser'' @ '', ''
       @ quoted ''userAgent'' @ '': '' @ quoted user_agent @ ''}''"

definition browser_headers :: headers where
  "browser_headers =
     [(''Content-Type'', ''application/x-www-form-urlencoded''), (''User-Agent'', user_agent)]"

definition authenticate_mosenergo ::
  "world \<Rightarrow> string \<Rightarrow> string \<Rightarrow> string \<Rightarrow> event list
     \<Rightarrow> (exn + json \<times> session) \<times> event list" where
  "authenticate_mosenergo w lk_url usr password tr =
     (let login_url = lk_url @ ''?action=auth&query=login'';
          data = [(''login'', JStr usr), (''psw'', JStr password),
                  (''vl_device_info'', JStr device_info)];
          hdrs = browser_headers
      in case request w (SessionPost login_url hdrs data) (tr @ [SessionNew]) of
           (RequestException, tr') \<Rightarrow> (Inl (SystemExit 1), tr')
         | (Body result, tr') \<Rightarrow>
             (except_value_key
                (case py_get result ''success'' JNull of
                   Inl e \<Rightarrow> Inl e
                 | Inr ok \<Rightarrow>
                     if py_truthy ok
                     then (case py_item result ''data'' of
                             Inl e \<Rightarrow> Inl e
                           | Inr d \<Rightarrow>
                               (case py_first d of
                                  Inl e \<Rightarrow> Inl e
                                | Inr r \<Rightarrow>
                                    (case py_item r ''session'' of
                                       Inl e \<Rightarrow> Inl e
                                     | Inr session_id \<Rightarrow> Inr (session_id, Session))))
                     else Inl (SystemExit 1)), tr'))"

definition fetch_mosenergo_provider ::
  "runtime \<Rightarrow> world \<Rightarrow> string \<Rightarrow> json \<Rightarrow> session \<Rightarrow> headers \<Rightarrow> event list
     \<Rightarrow> (exn + json) \<times> event list" where
  "fetch_mosenergo_provider rt w lk_url session_id sess hdrs tr =
     (let session_url = lk_url @ ''?action=sql&query=LSList&session='' @ py_format rt session_id
      in case request w (SessionPost session_url hdrs []) tr of
           (RequestException, tr') \<Rightarrow> (Inl (SystemExit 1), tr')
         | (Body result, tr') \<Rightarrow>
             (except_value_key
                (case py_get result ''success'' JNull of
                   Inl e \<Rightarrow> Inl e
                 | Inr ok \<Rightarrow>
                     if py_truthy ok
                     then (case py_item result ''data'' of
                             Inl e \<Rightarrow> Inl e
                           | Inr d \<Rightarrow>
                               (case py_first d of
                                  Inl e \<Rightarrow> Inl e
                                | Inr r \<Rightarrow> py_item r ''vl_provider''))
                     else Inl (SystemExit 1)), tr'))"

text \<open>
  \<^verbatim>\<open>send_mosenergo_data\<close> returns the response, or \<^verbatim>\<open>None\<close> (here \<open>JNull\<close>) when the
  request failed. Its argument \<^verbatim>\<open>payload_base\<close> is updated in place: the model returns
  the dictionary as the caller finds it afterwards. The dictionary given to
  \<^verbatim>\<open>update\<close> is built first, and reading \<^verbatim>\<open>electricity_values[0]\<close> and \<^verbatim>\<open>[1]\<close> for it
  can raise.
\<close>

definition calc_url :: "runtime \<Rightarrow> string \<Rightarrow> json \<Rightarrow> string" where
  "calc_url rt lk_url session_id =
     lk_url @ ''?action=sql&query=bytProxy&session='' @ py_format rt session_id"

definition save_url :: "runtime \<Rightarrow> string \<Rightarrow> json \<Rightarrow> string" where
  "save_url rt lk_url session_id =
     lk_url @ ''?action=sql&query=SaveIndications&'' @ ''session='' @ py_format rt session_id"

definition send_mosenergo_data ::
  "runtime \<Rightarrow> world \<Rightarrow> string \<Rightarrow> json \<Rightarrow> session \<Rightarrow> headers \<Rightarrow> json \<Rightarrow> int list \<Rightarrow> string
     \<Rightarrow> payload \<Rightarrow> event list \<Rightarrow> (exn + json) \<times> payload \<times> event list" where
  "send_mosenergo_data rt w lk_url session_id sess hdrs provider_id electricity_values
       query_type payload_base tr =
     (case (if query_type = ''CalcCharge''
            then (case list_index electricity_values 0 of
                    Inl e \<Rightarrow> Inl e
                  | Inr t1 \<Rightarrow>
                      (case list_index electricity_values 1 of
                         Inl e \<Rightarrow> Inl e
                       | Inr t2 \<Rightarrow>
                           Inr (calc_url rt lk_url session_id,
                                dict_update payload_base
                                  [(''proxyquery'', JStr ''CalcCharge''),
                                   (''vl_provider'', provider_id),
                                   (''vl_t1'', JInt t1),
                                   (''vl_t2'', JInt t2)])))
            else (case list_index electricity_values 0 of
                    Inl e \<Rightarrow> Inl e
                  | Inr t1 \<Rightarrow>
                      (case list_index electricity_values 1 of
                         Inl e \<Rightarrow> Inl e
                       | Inr t2 \<Rightarrow>
                           Inr (save_url rt lk_url session_id,
                                dict_update payload_base
                                  [(''vl_provider'', provider_id),
                                   (''vl_t1'', JInt t1),
                                   (''vl_t2'', JInt t2)])))) of
        Inl e \<Rightarrow> (Inl e, payload_base, tr)
      | Inr (url, data) \<Rightarrow>
          (case request w (SessionPost url hdrs data) tr of
             (RequestException, tr') \<Rightarrow> (Inr JNull, data, tr')
           | (Body result, tr') \<Rightarrow> (Inr result, data, tr')))"

section \<open>Orchestrator: \<^verbatim>\<open>main\<close>\<close>

text \<open>
  The local variables of \<^verbatim>\<open>main\<close> that outlive the \<^verbatim>\<open>try\<close> block. \<open>message\<close> and
  \<open>session\<close> are bound only on some paths: \<open>None\<close> is the name without a value, and
  reading it raises \<^verbatim>\<open>UnboundLocalError\<close>.
\<close>

record locals =
  calc_response :: json
  save_response :: json
  success :: bool
  error_message :: string
  message :: "string option"
  session :: "session option"

definition initial_locals :: locals where
  "initial_locals =
     \<lparr>calc_response = JNull, save_response = JNull, success = False, error_message = [],
      message = None, session = None\<rparr>"

definition newline :: string where
  "newline = [CHR 0x0A]"

text \<open>The two emoji of the messages, as UTF-8: a white check mark and a cross mark.\<close>

definition check_mark :: string where
  "check_mark = [CHR 0xE2, CHR 0x9C, CHR 0x85]"

definition cross_mark :: string where
  "cross_mark = [CHR 0xE2, CHR 0x9D, CHR 0x8C]"

definition not_enough :: string where
  "not_enough = ''Not enough electricity values received.''"

definition check_logs :: string where
  "check_logs = ''Operation failed. Check logs for details.''"

definition success_message :: "string \<Rightarrow> string \<Rightarrow> string" where
  "success_message calc_result_cleaned save_result =
     check_mark @ '' *Mosenergosbyt Operation Success*'' @ newline @ newline
       @ calc_result_cleaned @ newline @ save_result"

definition failure_message :: "string \<Rightarrow> string" where
  "failure_message err =
     cross_mark @ '' *Mosenergosbyt Operation Failure*'' @ newline @ newline
       @ ''Error: '' @ err"

definition unexpected_message :: "string \<Rightarrow> string" where
  "unexpected_message err =
     cross_mark @ '' *Mosenergosbyt Script Unexpected Failure*'' @ newline @ newline
       @ ''Error: '' @ err"

text \<open>Lines 349 to 363: both metering calls, the extraction and the length check.\<close>

definition main_metering ::
  "runtime \<Rightarrow> world \<Rightarrow> env_vars \<Rightarrow> string \<Rightarrow> locals \<Rightarrow> event list
     \<Rightarrow> (exn + int list) \<times> locals \<times> event list" where
  "main_metering rt w ev current_time l tr =
     (case authenticate_saures w (saures_api_url ev) (login ev) (saures_pass ev) tr of
        (Inl e, tr1) \<Rightarrow> (Inl e, l, tr1)
      | (Inr saures_sid, tr1) \<Rightarrow>
          (case fetch_saures_meter_data rt w (saures_api_url ev) saures_sid (meter_id ev)
                  current_time tr1 of
             (Inl e, tr2) \<Rightarrow> (Inl e, l, tr2)
           | (Inr meters_data, tr2) \<Rightarrow>
               (case get_electricity_vals meters_data of
                  Inl e \<Rightarrow> (Inl e, l, tr2)
                | Inr electricity_values \<Rightarrow>
                    if length electricity_values < 2
                    then (Inl (ValueError not_enough), l\<lparr>error_message := not_enough\<rparr>, tr2)
                    else (Inr electricity_values, l, tr2))))"

text \<open>
  Lines 365 to 378: the billing login, which binds \<open>session_id\<close> and \<open>session\<close> together
  when it returns, and the provider lookup.
\<close>

definition main_billing ::
  "runtime \<Rightarrow> world \<Rightarrow> env_vars \<Rightarrow> locals \<Rightarrow> event list
     \<Rightarrow> (exn + json \<times> session \<times> headers \<times> json) \<times> locals \<times> event list" where
  "main_billing rt w ev l tr =
     (case authenticate_mosenergo w (mosenergo_lk_url ev) (login ev) (mosenergo_pass ev) tr of
        (Inl e, tr1) \<Rightarrow> (Inl e, l, tr1)
      | (Inr (session_id, sess), tr1) \<Rightarrow>
          (let l1 = l\<lparr>session := Some sess\<rparr>; hdrs = browser_headers
           in case fetch_mosenergo_provider rt w (mosenergo_lk_url ev) session_id sess hdrs tr1 of
                (Inl e, tr2) \<Rightarrow> (Inl e, l1, tr2)
              | (Inr provider_id, tr2) \<Rightarrow>
                  (Inr (session_id, sess, hdrs, provider_id), l1, tr2)))"

definition calc_payload :: payload where
  "calc_payload =
     [(''nn_phone'', JStr ''+7 (499) 550-9-550''), (''plugin'', JStr ''bytProxy''),
      (''pr_flat_meter'', JInt 0)]"

definition save_payload :: payload where
  "save_payload = [(''plugin'', JStr ''propagateMesInd''), (''pr_flat_meter'', JInt 0)]"

text \<open>Lines 380 to 397: the two submissions, CalcCharge first.\<close>

definition main_submit ::
  "runtime \<Rightarrow> world \<Rightarrow> env_vars \<Rightarrow> json \<Rightarrow> session \<Rightarrow> headers \<Rightarrow> json \<Rightarrow> int list \<Rightarrow> locals
     \<Rightarrow> event list \<Rightarrow> exn option \<times> locals \<times> event list" where
  "main_submit rt w ev session_id sess hdrs provider_id electricity_values l tr =
     (case send_mosenergo_data rt w (mosenergo_lk_url ev) session_id sess hdrs provider_id
             electricity_values ''CalcCharge'' calc_payload tr of
        (Inl e, _, tr1) \<Rightarrow> (Some e, l, tr1)
      | (Inr r1, _, tr1) \<Rightarrow>
          (let l1 = l\<lparr>calc_response := r1\<rparr>
           in case send_mosenergo_data rt w (mosenergo_lk_url ev) session_id sess hdrs
                     provider_id electricity_values ''SaveIndications'' save_payload tr1 of
                (Inl e, _, tr2) \<Rightarrow> (Some e, l1, tr2)
              | (Inr r2, _, tr2) \<Rightarrow> (None, l1\<lparr>save_response := r2\<rparr>, tr2)))"

text \<open>
  Line 400, the condition
  \<^verbatim>\<open>calc_response and save_response and calc_response.get('success') and save_response.get('success')\<close>:
  \<^verbatim>\<open>and\<close> stops at the first operand that is not true.
\<close>

definition both_succeeded :: "json \<Rightarrow> json \<Rightarrow> exn + bool" where
  "both_succeeded calc save =
     (if \<not> py_truthy calc then Inr False
      else if \<not> py_truthy save then Inr False
      else (case py_get calc ''success'' JNull of
              Inl e \<Rightarrow> Inl e
            | Inr cs \<Rightarrow>
                if \<not> py_truthy cs then Inr False
                else (case py_get save ''success'' JNull of
                        Inl e \<Rightarrow> Inl e
                      | Inr ss \<Rightarrow> Inr (py_truthy ss))))"

text \<open>\<^verbatim>\<open>response['data'][0].get('nm_result', 'No result message available')\<close>.\<close>

definition nm_result :: "json \<Rightarrow> exn + json" where
  "nm_result response =
     (case py_item response ''data'' of
        Inl e \<Rightarrow> Inl e
      | Inr d \<Rightarrow>
          (case py_first d of
             Inl e \<Rightarrow> Inl e
           | Inr r \<Rightarrow> py_get r ''nm_result'' (JStr ''No result message available'')))"

text \<open>Lines 404 and 405; \<open>CHR 0x27\<close> is the single quote.\<close>

definition font_open :: string where
  "font_open = ''<font color='' @ [CHR 0x27] @ ''#ff6347'' @ [CHR 0x27] @ ''>''"

definition clean_result :: "string \<Rightarrow> string" where
  "clean_result calc_result =
     py_replace ''</b>'' ''**''
       (py_replace ''<b>'' ''**''
          (py_replace ''</font>'' [] (py_replace font_open [] calc_result)))"

text \<open>
  Lines 399 to 418. \<^verbatim>\<open>calc_result.replace\<close> needs a string; \<^verbatim>\<open>save_result\<close> is only
  formatted into the message.
\<close>

definition main_classify :: "runtime \<Rightarrow> locals \<Rightarrow> exn option \<times> locals" where
  "main_classify rt l =
     (case both_succeeded (calc_response l) (save_response l) of
        Inl e \<Rightarrow> (Some e, l)
      | Inr True \<Rightarrow>
          (let l1 = l\<lparr>success := True\<rparr>
           in case nm_result (calc_response l) of
                Inl e \<Rightarrow> (Some e, l1)
              | Inr (JStr calc_result) \<Rightarrow>
                  (let calc_result_cleaned = clean_result calc_result
                   in case nm_result (save_response l) of
                        Inl e \<Rightarrow> (Some e, l1)
                      | Inr save_result \<Rightarrow>
                          (None, l1\<lparr>message :=
                                   Some (success_message calc_result_cleaned
                                           (py_format rt save_result))\<rparr>))
              | Inr _ \<Rightarrow> (Some AttributeError, l1))
      | Inr False \<Rightarrow>
          (None, l\<lparr>success := False, error_message := check_logs,
                   message := Some (failure_message check_logs)\<rparr>))"

text \<open>The body of the \<^verbatim>\<open>try\<close>, lines 349 to 418: the first exception ends it.\<close>

definition main_try ::
  "runtime \<Rightarrow> world \<Rightarrow> env_vars \<Rightarrow> string \<Rightarrow> locals \<Rightarrow> event list
     \<Rightarrow> exn option \<times> locals \<times> event list" where
  "main_try rt w ev current_time l tr =
     (case main_metering rt w ev current_time l tr of
        (Inl e, l1, tr1) \<Rightarrow> (Some e, l1, tr1)
      | (Inr electricity_values, l1, tr1) \<Rightarrow>
          (case main_billing rt w ev l1 tr1 of
             (Inl e, l2, tr2) \<Rightarrow> (Some e, l2, tr2)
           | (Inr (session_id, sess, hdrs, provider_id), l2, tr2) \<Rightarrow>
               (case main_submit rt w ev session_id sess hdrs provider_id
                       electricity_values l2 tr2 of
                  (Some e, l3, tr3) \<Rightarrow> (Some e, l3, tr3)
                | (None, l3, tr3) \<Rightarrow>
                    (case main_classify rt l3 of (r, l4) \<Rightarrow> (r, l4, tr3)))))"

text \<open>
  \<^verbatim>\<open>except Exception as e\<close>, lines 420 to 427: it takes every exception but
  \<open>SystemExit\<close>, which stays pending.
\<close>

definition main_except ::
  "runtime \<Rightarrow> exn option \<times> locals \<times> event list \<Rightarrow> exn option \<times> locals \<times> event list" where
  "main_except rt r =
     (case r of
        (None, l, tr) \<Rightarrow> (None, l, tr)
      | (Some e, l, tr) \<Rightarrow>
          if is_Exception e
          then (None,
                l\<lparr>success := False, error_message := py_str rt e,
                  message := Some (unexpected_message (py_str rt e))\<rparr>, tr)
          else (Some e, l, tr))"

text \<open>
  The loop of lines 431 to 434. The arguments of each call are evaluated first, and
  \<^verbatim>\<open>message\<close> is one of them.
\<close>

fun notify :: "world \<Rightarrow> string \<Rightarrow> string option \<Rightarrow> string list \<Rightarrow> event list
     \<Rightarrow> exn option \<times> event list" where
  "notify w token msg [] tr = (None, tr)"
| "notify w token msg (chat # chats) tr =
     (case msg of
        None \<Rightarrow> (Some (UnboundLocalError ''message''), tr)
      | Some txt \<Rightarrow>
          (case send_telegram_message w token chat txt tr of
             (Inl e, tr1) \<Rightarrow> (Some e, tr1)
           | (Inr _, tr1) \<Rightarrow> notify w token msg chats tr1))"

text \<open>Lines 437 to 440: \<^verbatim>\<open>session.close()\<close> under \<^verbatim>\<open>except NameError: pass\<close>.\<close>

definition close_session :: "locals \<Rightarrow> event list \<Rightarrow> exn option \<times> event list" where
  "close_session l tr =
     (case (case session l of
              None \<Rightarrow> (Some (UnboundLocalError ''session''), tr)
            | Some sess \<Rightarrow> (None, tr @ [SessionClose])) of
        (Some e, tr1) \<Rightarrow> if is_NameError e then (None, tr1) else (Some e, tr1)
      | (None, tr1) \<Rightarrow> (None, tr1))"

text \<open>
  The \<^verbatim>\<open>finally\<close> block, lines 429 to 441. An exception raised in it takes the place of
  the pending one; when it runs to its end the pending exception is raised again.
\<close>

definition main_finally ::
  "world \<Rightarrow> env_vars \<Rightarrow> exn option \<times> locals \<times> event list \<Rightarrow> exn option \<times> locals \<times> event list" where
  "main_finally w ev r =
     (case r of
        (pending, l, tr) \<Rightarrow>
          (case notify w (telegram_bot_token ev) (message l)
                  (py_split CHR '','' (telegram_chat_id ev)) tr of
             (Some e, tr1) \<Rightarrow> (Some e, l, tr1)
           | (None, tr1) \<Rightarrow>
               (case close_session l tr1 of
                  (Some e, tr2) \<Rightarrow> (Some e, l, tr2)
                | (None, tr2) \<Rightarrow> (pending, l, tr2))))"

text \<open>
  \<^verbatim>\<open>main\<close> from line 339 on, once the configuration is loaded and the log file is
  open: the \<^verbatim>\<open>try\<close> statement.
\<close>

definition main_run ::
  "runtime \<Rightarrow> world \<Rightarrow> env_vars \<Rightarrow> string \<Rightarrow> exn option \<times> locals \<times> event list" where
  "main_run rt w ev current_time =
     main_finally w ev (main_except rt (main_try rt w ev current_time initial_locals []))"

text \<open>
  \<^verbatim>\<open>main\<close>: the exception that leaves it, if any, and the trace. Lines 336 and 338 run
  before the \<^verbatim>\<open>try\<close>, so what they raise leaves \<^verbatim>\<open>main\<close> at once, with no request made.
  The exit status of the process is 0 when \<^verbatim>\<open>main\<close> returns, the code of a \<open>SystemExit\<close>,
  and 1 for any other exception that nothing caught.
\<close>

definition main ::
  "runtime \<Rightarrow> world \<Rightarrow> (string \<Rightarrow> bool) \<Rightarrow> (string \<Rightarrow> string option) \<Rightarrow> string
     \<Rightarrow> exn option \<times> event list" where
  "main rt w can_open environ current_time =
     (case setup_environment environ of
        Inl e \<Rightarrow> (Some e, [])
      | Inr ev \<Rightarrow>
          (case setup_logging can_open (log_file ev) of
             Inl e \<Rightarrow> (Some e, [])
           | Inr _ \<Rightarrow>
               (case main_run rt w ev current_time of (r, l, tr) \<Rightarrow> (r, tr))))"

definition exit_status :: "exn option \<Rightarrow> int" where
  "exit_status r = (case r of None \<Rightarrow> 0 | Some (SystemExit n) \<Rightarrow> n | Some _ \<Rightarrow> 1)"

section \<open>Vocabulary of the properties\<close>

subsection \<open>The shape of a metering snapshot\<close>

text \<open>
  The metering API documents a snapshot as
  \<^verbatim>\<open>{sensors: [{meters: [{type: {name}, vals: [...]}]}]}\<close>. \<open>snapshot_ok\<close> asks for no more
  of it than the containers: the snapshot, its sensors and their meters are dictionaries,
  \<^verbatim>\<open>sensors\<close> and \<^verbatim>\<open>meters\<close> are lists and \<^verbatim>\<open>type\<close> is a dictionary, each where present.
\<close>

definition meter_ok :: "json \<Rightarrow> bool" where
  "meter_ok meter =
     (case meter of
        JDict kvs \<Rightarrow>
          (case map_of kvs ''type'' of None \<Rightarrow> True | Some (JDict _) \<Rightarrow> True | Some _ \<Rightarrow> False)
      | _ \<Rightarrow> False)"

definition sensor_ok :: "json \<Rightarrow> bool" where
  "sensor_ok sensor =
     (case sensor of
        JDict kvs \<Rightarrow>
          (case map_of kvs ''meters'' of
             None \<Rightarrow> True
           | Some (JList ms) \<Rightarrow> list_all meter_ok ms
           | Some _ \<Rightarrow> False)
      | _ \<Rightarrow> False)"

definition snapshot_ok :: "json \<Rightarrow> bool" where
  "snapshot_ok data =
     (case data of
        JDict kvs \<Rightarrow>
          (case map_of kvs ''sensors'' of
             None \<Rightarrow> True
           | Some (JList ss) \<Rightarrow> list_all sensor_ok ss
           | Some _ \<Rightarrow> False)
      | _ \<Rightarrow> False)"

text \<open>The meters of a snapshot in the order the two loops visit them.\<close>

definition meters_of :: "json \<Rightarrow> json list" where
  "meters_of sensor =
     (case sensor of
        JDict kvs \<Rightarrow> (case map_of kvs ''meters'' of Some (JList ms) \<Rightarrow> ms | _ \<Rightarrow> [])
      | _ \<Rightarrow> [])"

definition all_meters :: "json \<Rightarrow> json list" where
  "all_meters data =
     (case data of
        JDict kvs \<Rightarrow>
          (case map_of kvs ''sensors'' of Some (JList ss) \<Rightarrow> concat (map meters_of ss) | _ \<Rightarrow> [])
      | _ \<Rightarrow> [])"

text \<open>A meter is electricity-typed when the name of its type is the label.\<close>

definition is_electricity :: "json \<Rightarrow> bool" where
  "is_electricity meter =
     (case meter of
        JDict kvs \<Rightarrow>
          (case map_of kvs ''type'' of
             Some (JDict t) \<Rightarrow> map_of t ''name'' = Some (JStr electricity_label)
           | _ \<Rightarrow> False)
      | _ \<Rightarrow> False)"

definition meter_vals :: "json \<Rightarrow> json" where
  "meter_vals meter =
     (case meter of
        JDict kvs \<Rightarrow> (case map_of kvs ''vals'' of None \<Rightarrow> JList [] | Some v \<Rightarrow> v)
      | _ \<Rightarrow> JList [])"

definition rounded_vals :: "json \<Rightarrow> exn + int list" where
  "rounded_vals meter =
     (case py_iter (meter_vals meter) of Inl e \<Rightarrow> Inl e | Inr vs \<Rightarrow> round_all vs)"

text \<open>A value of a meter is a number: an integer or a finite float.\<close>

definition is_number :: "json \<Rightarrow> bool" where
  "is_number v = (case v of JInt _ \<Rightarrow> True | JFloat (Finite _) \<Rightarrow> True | _ \<Rightarrow> False)"

definition number_value :: "json \<Rightarrow> rat" where
  "number_value v = (case v of JInt i \<Rightarrow> of_int i | JFloat (Finite q) \<Rightarrow> q | _ \<Rightarrow> 0)"

subsection \<open>Sample snapshots\<close>

text \<open>
  A water meter, then an electricity meter with the two values \<open>123.4\<close> and \<open>567.8\<close>.
\<close>

definition water_meter :: json where
  "water_meter = JDict [(''type'', JDict [(''name'', JStr ''water'')]), (''vals'', JList [JInt 5])]"

definition meter_two :: json where
  "meter_two =
     JDict [(''type'', JDict [(''name'', JStr electricity_label)]),
            (''vals'', JList [JFloat (Finite (617 / 5)), JFloat (Finite (2839 / 5))])]"

definition snapshot_two :: json where
  "snapshot_two = JDict [(''sensors'', JList [JDict [(''meters'', JList [water_meter, meter_two])]])]"

text \<open>An electricity meter with three values: \<open>123.4\<close>, \<open>567.8\<close> and \<open>9.5\<close>.\<close>

definition meter_three :: json where
  "meter_three =
     JDict [(''type'', JDict [(''name'', JStr electricity_label)]),
            (''vals'', JList [JFloat (Finite (617 / 5)), JFloat (Finite (2839 / 5)),
                              JFloat (Finite (19 / 2))])]"

definition snapshot_three :: json where
  "snapshot_three = JDict [(''sensors'', JList [JDict [(''meters'', JList [meter_three])]])]"

text \<open>The snapshot \<^verbatim>\<open>{"sensors": null}\<close>: no meter at all.\<close>

definition snapshot_null :: json where
  "snapshot_null = JDict [(''sensors'', JNull)]"

text \<open>Only a water meter.\<close>

definition snapshot_water :: json where
  "snapshot_water = JDict [(''sensors'', JList [JDict [(''meters'', JList [water_meter])]])]"

subsection \<open>What a trace shows\<close>

text \<open>One call of the notifier is one request to the bot API.\<close>

definition notification :: "string \<Rightarrow> string \<Rightarrow> string \<Rightarrow> event" where
  "notification token txt chat = Post (telegram_url token) [] (telegram_payload chat txt)"

definition notifications :: "string \<Rightarrow> string \<Rightarrow> string list \<Rightarrow> event list" where
  "notifications token txt chats = map (notification token txt) chats"

text \<open>The configured recipient ids: the pieces of \<^verbatim>\<open>TELEGRAM_CHAT_ID\<close> between commas.\<close>

definition recipients :: "env_vars \<Rightarrow> string list" where
  "recipients ev = py_split CHR '','' (telegram_chat_id ev)"

definition is_notification :: "event \<Rightarrow> bool" where
  "is_notification e =
     (case e of
        Post url hdrs data \<Rightarrow> prefix ''https://api.telegram.org/bot'' url
      | _ \<Rightarrow> False)"


text \<open>
  The bot API answers a request with a JSON object, when it answers. The notifier reads
  the answer with \<^verbatim>\<open>result.get('ok')\<close>, which only an object has.
\<close>

definition notifier_answer_ok :: "http_result \<Rightarrow> bool" where
  "notifier_answer_ok a =
     (case a of RequestException \<Rightarrow> True | Body (JDict _) \<Rightarrow> True | Body _ \<Rightarrow> False)"

definition notifier_answers_ok :: "world \<Rightarrow> bool" where
  "notifier_answers_ok w =
     (\<forall>tr token txt chat. notifier_answer_ok (w (tr @ [notification token txt chat])))"

text \<open>
  The request of the metering login, and the answers on which \<^verbatim>\<open>authenticate_saures\<close>
  gives up: a failed request, or an object whose status is not \<^verbatim>\<open>ok\<close>.
\<close>

definition saures_login_event :: "env_vars \<Rightarrow> event" where
  "saures_login_event ev =
     Post (saures_api_url ev @ ''/login'')
       [(''Content-Type'', ''application/x-www-form-urlencoded; charset=utf-8'')]
       [(''email'', JStr (login ev)), (''password'', JStr (saures_pass ev))]"

definition login_refused :: "http_result \<Rightarrow> bool" where
  "login_refused a =
     (case a of
        RequestException \<Rightarrow> True
      | Body (JDict kvs) \<Rightarrow> map_of kvs ''status'' \<noteq> Some (JStr ''ok'')
      | Body _ \<Rightarrow> False)"

text \<open>The requests of the two submissions, and what a submission returns for an answer.\<close>

definition calc_event :: "runtime \<Rightarrow> env_vars \<Rightarrow> json \<Rightarrow> headers \<Rightarrow> json \<Rightarrow> int list \<Rightarrow> event" where
  "calc_event rt ev session_id hdrs provider_id vals =
     SessionPost (calc_url rt (mosenergo_lk_url ev) session_id) hdrs
       (dict_update calc_payload
          [(''proxyquery'', JStr ''CalcCharge''), (''vl_provider'', provider_id),
           (''vl_t1'', JInt (vals ! 0)), (''vl_t2'', JInt (vals ! 1))])"

definition save_event :: "runtime \<Rightarrow> env_vars \<Rightarrow> json \<Rightarrow> headers \<Rightarrow> json \<Rightarrow> int list \<Rightarrow> event" where
  "save_event rt ev session_id hdrs provider_id vals =
     SessionPost (save_url rt (mosenergo_lk_url ev) session_id) hdrs
       (dict_update save_payload
          [(''vl_provider'', provider_id), (''vl_t1'', JInt (vals ! 0)),
           (''vl_t2'', JInt (vals ! 1))])"

definition returned :: "http_result \<Rightarrow> json" where
  "returned a = (case a of RequestException \<Rightarrow> JNull | Body result \<Rightarrow> result)"

text \<open>What \<^verbatim>\<open>session.close()\<close> adds to the trace at teardown.\<close>

definition teardown :: "locals \<Rightarrow> event list" where
  "teardown l = (case session l of None \<Rightarrow> [] | Some _ \<Rightarrow> [SessionClose])"

subsection \<open>The shape of a submission result\<close>

text \<open>
  The billing API documents the answer to a submission as
  \<^verbatim>\<open>{success, data: [{nm_result}]}\<close>. A result is absent (\<^verbatim>\<open>None\<close>) or an object; its
  success indicator is true when \<^verbatim>\<open>success\<close> is there and true; and an object whose
  indicator is true carries \<^verbatim>\<open>data\<close>, a list whose first record is an object with the
  result text, a string, where it has one.
\<close>

definition success_indicator :: "json \<Rightarrow> bool" where
  "success_indicator r =
     (case r of
        JDict kvs \<Rightarrow> (case map_of kvs ''success'' of None \<Rightarrow> False | Some v \<Rightarrow> py_truthy v)
      | _ \<Rightarrow> False)"

definition has_result_text :: "json \<Rightarrow> bool" where
  "has_result_text r =
     (case r of
        JDict kvs \<Rightarrow>
          (case map_of kvs ''data'' of
             Some (JList (JDict record # _)) \<Rightarrow>
               (case map_of record ''nm_result'' of
                  None \<Rightarrow> True
                | Some (JStr _) \<Rightarrow> True
                | Some _ \<Rightarrow> False)
           | _ \<Rightarrow> False)
      | _ \<Rightarrow> False)"

definition operation_result_ok :: "json \<Rightarrow> bool" where
  "operation_result_ok r =
     (case r of
        JNull \<Rightarrow> True
      | JDict kvs \<Rightarrow> (if success_indicator r then has_result_text r else True)
      | _ \<Rightarrow> False)"

text \<open>The result text of a result that has one, as line 402 and line 406 read it.\<close>

definition result_text :: "json \<Rightarrow> string" where
  "result_text r = (case nm_result r of Inr (JStr t) \<Rightarrow> t | _ \<Rightarrow> [])"

subsection \<open>Sample runs\<close>

text \<open>
  A scripted world answers the requests in order, by their count; past the script every
  request fails.
\<close>

definition is_request :: "event \<Rightarrow> bool" where
  "is_request e = (case e of SessionNew \<Rightarrow> False | SessionClose \<Rightarrow> False | _ \<Rightarrow> True)"

definition scripted :: "http_result list \<Rightarrow> world" where
  "scripted answers tr =
     (let n = length (filter is_request tr)
      in if 0 < n \<and> n \<le> length answers then answers ! (n - 1) else RequestException)"

definition sample_env :: env_vars where
  "sample_env =
     \<lparr>login = ''user'', log_file = ''/var/log/autometer.log'', saures_pass = ''p1'',
      saures_api_url = ''https://s'', meter_id = ''7'', mosenergo_lk_url = ''https://m'',
      mosenergo_pass = ''p2'', telegram_bot_token = ''tok'', telegram_chat_id = ''1,2''\<rparr>"

definition sample_environ :: "string \<Rightarrow> string option" where
  "sample_environ =
     map_of
       [(''LOGIN'', ''user''), (''LOG_FILE'', ''/var/log/autometer.log''),
        (''SAURES_PASS'', ''p1''), (''SAURES_API_URL'', ''https://s''), (''METER_ID'', ''7''),
        (''MOSENERGO_LK_URL'', ''https://m''), (''MOSENERGO_PASS'', ''p2''),
        (''TELEGRAM_BOT_TOKEN'', ''tok''), (''TELEGRAM_CHAT_ID'', ''1,2'')]"

text \<open>
  A runtime that renders a \<^verbatim>\<open>KeyError\<close> for a string key as Python does, the key between
  single quotes.
\<close>

definition sample_runtime :: runtime where
  "sample_runtime =
     \<lparr>str_json = (\<lambda>v. ''?''),
      str_exn = (\<lambda>e. case e of KeyError (JStr k) \<Rightarrow> [CHR 0x27] @ k @ [CHR 0x27] | _ \<Rightarrow> ''?'')\<rparr>"

text \<open>A file system in which every log file can be opened, and one in which none can.\<close>

definition sample_files :: "string \<Rightarrow> bool" where
  "sample_files path = True"

definition locked_files :: "string \<Rightarrow> bool" where
  "locked_files path = False"

definition sample_time :: string where
  "sample_time = ''2025-05-20T10:00:00''"

definition saures_login_ok :: http_result where
  "saures_login_ok =
     Body (JDict [(''status'', JStr ''ok''), (''data'', JDict [(''sid'', JStr ''S1'')])])"

definition saures_meters_ok :: "json \<Rightarrow> http_result" where
  "saures_meters_ok snapshot = Body (JDict [(''status'', JStr ''ok''), (''data'', snapshot)])"

definition mosenergo_login_ok :: http_result where
  "mosenergo_login_ok =
     Body (JDict [(''success'', JBool True),
                  (''data'', JList [JDict [(''session'', JStr ''M1'')]])])"

definition mosenergo_provider_ok :: http_result where
  "mosenergo_provider_ok =
     Body (JDict [(''success'', JBool True),
                  (''data'', JList [JDict [(''vl_provider'', JInt 6)]])])"

definition submission_ok :: "string \<Rightarrow> http_result" where
  "submission_ok txt =
     Body (JDict [(''success'', JBool True),
                  (''data'', JList [JDict [(''nm_result'', JStr txt)]])])"

definition telegram_ok :: http_result where
  "telegram_ok = Body (JDict [(''ok'', JBool True)])"

text \<open>The requests of the sample runs up to the submissions.\<close>

definition sample_login_event :: event where
  "sample_login_event =
     Post ''https://s/login''
       [(''Content-Type'', ''application/x-www-form-urlencoded; charset=utf-8'')]
       [(''email'', JStr ''user''), (''password'', JStr ''p1'')]"

definition sample_metering_trace :: "event list" where
  "sample_metering_trace =
     [sample_login_event,
      Get ''https://s/object/meters?sid=S1&id=7&date=2025-05-20T10:00:00'']"

definition sample_billing_trace :: "event list" where
  "sample_billing_trace =
     sample_metering_trace
       @ [SessionNew,
          SessionPost ''https://m?action=auth&query=login'' browser_headers
            [(''login'', JStr ''user''), (''psw'', JStr ''p2''),
             (''vl_device_info'', JStr device_info)],
          SessionPost ''https://m?action=sql&query=LSList&session=M1'' browser_headers []]"

text \<open>Scenario A: the metering login answers with a status that is not \<^verbatim>\<open>ok\<close>.\<close>

definition world_auth_fails :: world where
  "world_auth_fails =
     scripted [Body (JDict [(''status'', JStr ''error'')]), telegram_ok, telegram_ok]"

text \<open>
  Scenario B: everything succeeds, and both result texts carry markup.
\<close>

definition world_success :: world where
  "world_success =
     scripted
       [saures_login_ok, saures_meters_ok snapshot_two, mosenergo_login_ok,
        mosenergo_provider_ok,
        submission_ok (font_open @ ''<b>12 rub</b></font>''),
        submission_ok ''<b>saved</b>'',
        telegram_ok, telegram_ok]"

text \<open>Scenario C: the snapshot has no electricity meter.\<close>

definition world_no_values :: world where
  "world_no_values =
     scripted [saures_login_ok, saures_meters_ok snapshot_water, telegram_ok, telegram_ok]"

text \<open>Scenario D: the CalcCharge request fails, SaveIndications succeeds.\<close>

definition world_calc_fails :: world where
  "world_calc_fails =
     scripted
       [saures_login_ok, saures_meters_ok snapshot_two, mosenergo_login_ok,
        mosenergo_provider_ok, RequestException, submission_ok ''saved'',
        telegram_ok, telegram_ok]"

text \<open>
  Both submissions answer \<^verbatim>\<open>{"success": true}\<close>, an object with no \<^verbatim>\<open>data\<close>.
\<close>

definition world_no_data :: world where
  "world_no_data =
     scripted
       [saures_login_ok, saures_meters_ok snapshot_two, mosenergo_login_ok,
        mosenergo_provider_ok, Body (JDict [(''success'', JBool True)]),
        Body (JDict [(''success'', JBool True)]), telegram_ok, telegram_ok]"

text \<open>The billing login succeeds and the provider lookup answers \<^verbatim>\<open>success: false\<close>.\<close>

definition world_provider_fails :: world where
  "world_provider_fails =
     scripted
       [saures_login_ok, saures_meters_ok snapshot_two, mosenergo_login_ok,
        Body (JDict [(''success'', JBool False)]), telegram_ok, telegram_ok]"

section \<open>Properties of \<^verbatim>\<open>get_electricity_vals\<close>\<close>

lemma meter_ok_cases:
  assumes "meter_ok m"
  obtains kvs where "m = JDict kvs" "map_of kvs ''type'' = None"
  | kvs t where "m = JDict kvs" "map_of kvs ''type'' = Some (JDict t)"
proof (cases m)
  case (JDict kvs)
  with assms show ?thesis
    by (cases "map_of kvs ''type''"; simp add: meter_ok_def split: json.splits)
       (use that JDict in auto)
qed (use assms in \<open>simp_all add: meter_ok_def\<close>)

lemma scan_meters_step:
  assumes "meter_ok m"
  shows "scan_meters (m # ms) =
     (if is_electricity m
      then (case rounded_vals m of Inl e \<Rightarrow> Inl e | Inr rs \<Rightarrow> Inr (Some rs))
      else scan_meters ms)"
  using assms
proof (cases m rule: meter_ok_cases)
  case (1 kvs)
  then show ?thesis
    by (simp add: is_electricity_def electricity_label_def)
next
  case (2 kvs t)
  then show ?thesis
    by (cases "map_of kvs ''vals''")
       (simp_all add: is_electricity_def rounded_vals_def meter_vals_def
          split: option.splits sum.splits)
qed

lemma scan_meters_find:
  "list_all meter_ok ms \<Longrightarrow>
   scan_meters ms =
     (case find is_electricity ms of
        None \<Rightarrow> Inr None
      | Some m \<Rightarrow> (case rounded_vals m of Inl e \<Rightarrow> Inl e | Inr rs \<Rightarrow> Inr (Some rs)))"
proof (induction ms)
  case Nil
  then show ?case by simp
next
  case (Cons m ms)
  then have "meter_ok m" and "list_all meter_ok ms" by simp_all
  with Cons.IH show ?case
    by (simp only: scan_meters_step find.simps split: if_splits) simp
qed

lemma find_append_case:
  "find P (xs @ ys) = (case find P xs of None \<Rightarrow> find P ys | Some x \<Rightarrow> Some x)"
  by (induction xs) auto

lemma sensor_ok_cases:
  assumes "sensor_ok s"
  obtains kvs where "s = JDict kvs" "map_of kvs ''meters'' = None"
  | kvs ms where "s = JDict kvs" "map_of kvs ''meters'' = Some (JList ms)" "list_all meter_ok ms"
proof (cases s)
  case (JDict kvs)
  with assms show ?thesis
    by (cases "map_of kvs ''meters''"; simp add: sensor_ok_def split: json.splits)
       (use that JDict in auto)
qed (use assms in \<open>simp_all add: sensor_ok_def\<close>)

lemma scan_sensors_step:
  assumes "sensor_ok s"
  shows "scan_sensors (s # ss) =
     (case find is_electricity (meters_of s) of
        None \<Rightarrow> scan_sensors ss
      | Some m \<Rightarrow> (case rounded_vals m of Inl e \<Rightarrow> Inl e | Inr rs \<Rightarrow> Inr (Some rs)))"
  using assms
proof (cases s rule: sensor_ok_cases)
  case (1 kvs)
  then show ?thesis by (simp add: meters_of_def)
next
  case (2 kvs ms)
  then show ?thesis
    by (simp add: meters_of_def scan_meters_find split: option.splits sum.splits)
qed

lemma scan_sensors_find:
  "list_all sensor_ok ss \<Longrightarrow>
   scan_sensors ss =
     (case find is_electricity (concat (map meters_of ss)) of
        None \<Rightarrow> Inr None
      | Some m \<Rightarrow> (case rounded_vals m of Inl e \<Rightarrow> Inl e | Inr rs \<Rightarrow> Inr (Some rs)))"
proof (induction ss)
  case Nil
  then show ?case by simp
next
  case (Cons s ss)
  then have "sensor_ok s" and "list_all sensor_ok ss" by simp_all
  with Cons.IH show ?case
    by (simp add: scan_sensors_step find_append_case split: option.splits
          del: scan_sensors.simps)
qed

lemma snapshot_ok_cases:
  assumes "snapshot_ok d"
  obtains kvs where "d = JDict kvs" "map_of kvs ''sensors'' = None"
  | kvs ss where "d = JDict kvs" "map_of kvs ''sensors'' = Some (JList ss)" "list_all sensor_ok ss"
proof (cases d)
  case (JDict kvs)
  with assms show ?thesis
    by (cases "map_of kvs ''sensors''"; simp add: snapshot_ok_def split: json.splits)
       (use that JDict in auto)
qed (use assms in \<open>simp_all add: snapshot_ok_def\<close>)

text \<open>
  On a snapshot of the documented shape the two loops find the first electricity-typed
  meter in visiting order and return what its values round to; with no such meter they
  return the empty list.
\<close>

lemma get_electricity_vals_find:
  assumes "snapshot_ok d"
  shows "get_electricity_vals d =
     (case find is_electricity (all_meters d) of
        None \<Rightarrow> Inr []
      | Some m \<Rightarrow> rounded_vals m)"
  using assms
proof (cases d rule: snapshot_ok_cases)
  case (1 kvs)
  then show ?thesis by (simp add: get_electricity_vals_def all_meters_def)
next
  case (2 kvs ss)
  then show ?thesis
    by (simp add: get_electricity_vals_def all_meters_def scan_sensors_find
        split: option.splits sum.splits)
qed

lemma round_half_even_of_int: "round_half_even (of_int i) = i"
  by (simp add: round_half_even_def)

text \<open>No integer is nearer to \<open>x\<close> than \<open>round_half_even x\<close>.\<close>

lemma round_half_even_nearest:
  "\<bar>x - of_int (round_half_even x)\<bar> \<le> \<bar>x - of_int k\<bar>"
proof -
  define f where "f = \<lfloor>x\<rfloor>"
  have lo: "of_int f \<le> x" and hi: "x < of_int f + 1"
    unfolding f_def by linarith+
  consider "k \<le> f" | "f + 1 \<le> k" by linarith
  then show ?thesis
  proof cases
    case 1
    then have "(of_int k :: rat) \<le> of_int f" by simp
    with lo hi show ?thesis
      unfolding round_half_even_def Let_def f_def [symmetric] by (auto simp: abs_if)
  next
    case 2
    then have "(of_int f :: rat) + 1 \<le> of_int k"
      by (metis of_int_1 of_int_add of_int_le_iff)
    with lo hi show ?thesis
      unfolding round_half_even_def Let_def f_def [symmetric] by (auto simp: abs_if)
  qed
qed

lemma py_round_number:
  "is_number v \<Longrightarrow> py_round v = Inr (round_half_even (number_value v))"
  by (cases v rule: py_round.cases)
     (simp_all add: is_number_def number_value_def round_half_even_of_int)

lemma round_all_numbers:
  "list_all is_number vs \<Longrightarrow>
   round_all vs = Inr (map (\<lambda>v. round_half_even (number_value v)) vs)"
  by (induction vs) (simp_all add: py_round_number)

lemma round_123: "round_half_even (617 / 5) = 123"
  by code_simp

lemma round_568: "round_half_even (2839 / 5) = 568"
  by code_simp

lemma round_10: "round_half_even (19 / 2) = 10"
  by code_simp

lemma snapshot_two_ok: "snapshot_ok snapshot_two"
  by (simp add: snapshot_two_def snapshot_ok_def sensor_ok_def meter_ok_def
        water_meter_def meter_two_def)

lemma snapshot_two_first:
  "find is_electricity (all_meters snapshot_two) = Some meter_two"
  by (simp add: snapshot_two_def all_meters_def meters_of_def is_electricity_def
        water_meter_def meter_two_def electricity_label_def)

lemma snapshot_three_ok: "snapshot_ok snapshot_three"
  by (simp add: snapshot_three_def snapshot_ok_def sensor_ok_def meter_ok_def meter_three_def)

lemma snapshot_three_first:
  "find is_electricity (all_meters snapshot_three) = Some meter_three"
  by (simp add: snapshot_three_def all_meters_def meters_of_def is_electricity_def
        meter_three_def)

text \<open>
  C3, as amended. On a snapshot of the documented shape whose first electricity-typed
  meter (in sensor, then meter order) carries a list of numbers, \<^verbatim>\<open>get_electricity_vals\<close>
  returns all the values of that meter, not only two of them: as many integers as the
  meter has values, in the order of the source, each one an integer nearest to its value
  (the even one of two equally near). So the first two entries of the result are the
  first two values of that meter, rounded.
\<close>

theorem get_electricity_vals_first_meter:
  assumes "snapshot_ok d"
    and "find is_electricity (all_meters d) = Some m"
    and "meter_vals m = JList vs"
    and "list_all is_number vs"
  shows "get_electricity_vals d = Inr (map (\<lambda>v. round_half_even (number_value v)) vs)
    \<and> (\<forall>v k. \<bar>number_value v - of_int (round_half_even (number_value v))\<bar>
              \<le> \<bar>number_value v - of_int k\<bar>)"
proof
  have "get_electricity_vals d = rounded_vals m"
    using assms(1,2) by (simp add: get_electricity_vals_find)
  also have "\<dots> = round_all vs"
    using assms(3) by (simp add: rounded_vals_def)
  also have "\<dots> = Inr (map (\<lambda>v. round_half_even (number_value v)) vs)"
    using assms(4) by (rule round_all_numbers)
  finally show "get_electricity_vals d = Inr (map (\<lambda>v. round_half_even (number_value v)) vs)" .
next
  show "\<forall>v k. \<bar>number_value v - of_int (round_half_even (number_value v))\<bar>
              \<le> \<bar>number_value v - of_int k\<bar>"
    by (simp add: round_half_even_nearest)
qed

theorem get_electricity_vals_first_meter_witness:
  "snapshot_ok snapshot_two
   \<and> find is_electricity (all_meters snapshot_two) = Some meter_two
   \<and> meter_vals meter_two = JList [JFloat (Finite (617 / 5)), JFloat (Finite (2839 / 5))]
   \<and> list_all is_number [JFloat (Finite (617 / 5)), JFloat (Finite (2839 / 5))]
   \<and> get_electricity_vals snapshot_two = Inr [123, 568]"
proof -
  have vals: "meter_vals meter_two = JList [JFloat (Finite (617 / 5)), JFloat (Finite (2839 / 5))]"
    by (simp add: meter_vals_def meter_two_def)
  have nums: "list_all is_number [JFloat (Finite (617 / 5)), JFloat (Finite (2839 / 5))]"
    by (simp add: is_number_def)
  from get_electricity_vals_first_meter [OF snapshot_two_ok snapshot_two_first vals nums]
  have "get_electricity_vals snapshot_two = Inr [123, 568]"
    by (simp add: number_value_def round_123 round_568)
  with snapshot_two_ok snapshot_two_first vals nums show ?thesis by simp
qed

text \<open>
  The claim as it was stated fails on a meter with three values: all three come back,
  not "exactly the first two".
\<close>

theorem get_electricity_vals_three_values:
  "snapshot_ok snapshot_three
   \<and> find is_electricity (all_meters snapshot_three) = Some meter_three
   \<and> meter_vals meter_three =
       JList [JFloat (Finite (617 / 5)), JFloat (Finite (2839 / 5)), JFloat (Finite (19 / 2))]
   \<and> get_electricity_vals snapshot_three = Inr [123, 568, 10]
   \<and> get_electricity_vals snapshot_three \<noteq> Inr [123, 568]"
proof -
  have vals: "meter_vals meter_three =
      JList [JFloat (Finite (617 / 5)), JFloat (Finite (2839 / 5)), JFloat (Finite (19 / 2))]"
    by (simp add: meter_vals_def meter_three_def)
  have "get_electricity_vals snapshot_three = rounded_vals meter_three"
    using snapshot_three_ok snapshot_three_first by (simp add: get_electricity_vals_find)
  also have "\<dots> = Inr [123, 568, 10]"
    by (simp add: rounded_vals_def vals round_123 round_568 round_10)
  finally have "get_electricity_vals snapshot_three = Inr [123, 568, 10]" .
  with snapshot_three_ok snapshot_three_first vals show ?thesis by simp
qed

section \<open>Properties of the notifier and of the \<^verbatim>\<open>finally\<close> block\<close>

lemma py_split_not_Nil: "py_split sep s \<noteq> []"
  by (induction s) (auto split: list.splits)

lemma send_telegram_message_ok:
  assumes "notifier_answers_ok w"
  shows "\<exists>sent. send_telegram_message w token chat txt tr =
           (Inr sent, tr @ [notification token txt chat])"
proof -
  have ok: "notifier_answer_ok (w (tr @ [notification token txt chat]))"
    using assms by (simp add: notifier_answers_ok_def)
  show ?thesis
  proof (cases "w (tr @ [notification token txt chat])")
    case RequestException
    then show ?thesis
      by (auto simp: send_telegram_message_def request_def notification_def)
  next
    case (Body result)
    with ok obtain kvs where "result = JDict kvs"
      by (cases result) (simp_all add: notifier_answer_ok_def)
    with Body show ?thesis
      by (auto simp: send_telegram_message_def request_def notification_def)
  qed
qed

text \<open>With a message and well-formed answers the loop notifies every recipient, in order.\<close>

lemma notify_ok:
  assumes "notifier_answers_ok w"
  shows "notify w token (Some txt) chats tr = (None, tr @ notifications token txt chats)"
proof (induction chats arbitrary: tr)
  case Nil
  then show ?case by (simp add: notifications_def)
next
  case (Cons chat chats)
  obtain sent where "send_telegram_message w token chat txt tr =
      (Inr sent, tr @ [notification token txt chat])"
    using send_telegram_message_ok [OF assms] by blast
  then show ?case
    by (simp add: Cons.IH notifications_def)
qed

text \<open>Without a message the first call already fails, before any request.\<close>

lemma notify_unbound:
  "chats \<noteq> [] \<Longrightarrow> notify w token None chats tr = (Some (UnboundLocalError ''message''), tr)"
  by (cases chats) simp_all

lemma close_session_eq: "close_session l tr = (None, tr @ teardown l)"
  by (cases "session l") (simp_all add: close_session_def teardown_def is_NameError_def)

lemma main_finally_unbound:
  "message l = None \<Longrightarrow>
   main_finally w ev (pending, l, tr) = (Some (UnboundLocalError ''message''), l, tr)"
  by (simp add: main_finally_def notify_unbound py_split_not_Nil)

lemma main_finally_bound:
  assumes "notifier_answers_ok w" and "message l = Some txt"
  shows "main_finally w ev (pending, l, tr) =
     (pending, l, tr @ notifications (telegram_bot_token ev) txt (recipients ev) @ teardown l)"
  using assms
  by (simp add: main_finally_def notify_ok close_session_eq recipients_def)

section \<open>Properties of the stages of \<^verbatim>\<open>main\<close>\<close>

lemma main_metering_locals:
  assumes "main_metering rt w ev now l tr = (r, l', tr')"
  shows "message l' = message l" and "session l' = session l"
    and "calc_response l' = calc_response l" and "save_response l' = save_response l"
  using assms
  by (auto simp: main_metering_def split: prod.splits sum.splits if_splits)

lemma main_metering_Inr:
  assumes "main_metering rt w ev now l tr = (Inr vals, l', tr')"
  shows "l' = l" and "2 \<le> length vals"
  using assms
  by (auto simp: main_metering_def split: prod.splits sum.splits if_splits)

lemma main_billing_locals:
  assumes "main_billing rt w ev l tr = (r, l', tr')"
  shows "message l' = message l"
    and "calc_response l' = calc_response l" and "save_response l' = save_response l"
  using assms
  by (auto simp: main_billing_def Let_def split: prod.splits sum.splits)

lemma main_billing_Inr:
  assumes "main_billing rt w ev l tr = (Inr (session_id, sess, hdrs, provider_id), l', tr')"
  shows "l' = l\<lparr>session := Some sess\<rparr>" and "hdrs = browser_headers"
  using assms
  by (auto simp: main_billing_def Let_def split: prod.splits sum.splits)

text \<open>
  With two values at hand a submission sends exactly one request and returns what the
  answer gives, an absent result for a failed request: it never raises.
\<close>

lemma send_mosenergo_data_eq:
  assumes "2 \<le> length vals"
  shows "send_mosenergo_data rt w lk_url session_id sess hdrs provider_id vals query_type base tr =
     (let url = (if query_type = ''CalcCharge'' then calc_url rt lk_url session_id
                 else save_url rt lk_url session_id);
          data = dict_update base
                   ((if query_type = ''CalcCharge'' then [(''proxyquery'', JStr ''CalcCharge'')]
                     else [])
                    @ [(''vl_provider'', provider_id), (''vl_t1'', JInt (vals ! 0)),
                       (''vl_t2'', JInt (vals ! 1))])
      in (Inr (returned (w (tr @ [SessionPost url hdrs data]))), data,
          tr @ [SessionPost url hdrs data]))"
proof -
  have idx: "list_index vals 0 = Inr (vals ! 0)" "list_index vals (Suc 0) = Inr (vals ! 1)"
    using assms by (auto simp: list_index_def)
  show ?thesis
  proof (cases "query_type = ''CalcCharge''")
    case True
    then show ?thesis
      by (simp add: send_mosenergo_data_def idx request_def returned_def Let_def
            split: http_result.splits)
  next
    case False
    then show ?thesis
      by (simp add: send_mosenergo_data_def idx request_def returned_def Let_def
            split: http_result.splits)
  qed
qed

lemma main_submit_eq:
  assumes "2 \<le> length vals"
  shows "main_submit rt w ev session_id sess hdrs provider_id vals l tr =
     (None,
      l\<lparr>calc_response :=
           returned (w (tr @ [calc_event rt ev session_id hdrs provider_id vals])),
        save_response :=
           returned (w (tr @ [calc_event rt ev session_id hdrs provider_id vals,
                              save_event rt ev session_id hdrs provider_id vals]))\<rparr>,
      tr @ [calc_event rt ev session_id hdrs provider_id vals,
            save_event rt ev session_id hdrs provider_id vals])"
  by (simp add: main_submit_def send_mosenergo_data_eq [OF assms] calc_event_def save_event_def
        Let_def)

text \<open>The condition of line 400 on results of the documented shape.\<close>

lemma both_succeeded_ok:
  assumes "operation_result_ok c" and "operation_result_ok s"
  shows "both_succeeded c s = Inr (success_indicator c \<and> success_indicator s)"
proof -
  have c: "c = JNull \<or> (\<exists>kvs. c = JDict kvs)"
    using assms(1) by (cases c) (simp_all add: operation_result_ok_def)
  have s: "s = JNull \<or> (\<exists>kvs. s = JDict kvs)"
    using assms(2) by (cases s) (simp_all add: operation_result_ok_def)
  from c s show ?thesis
    by (auto simp: both_succeeded_def success_indicator_def split: option.splits)
qed

text \<open>An absent result decides the condition before any \<^verbatim>\<open>get\<close> is called.\<close>

lemma both_succeeded_absent:
  "c = JNull \<or> s = JNull \<Longrightarrow> both_succeeded c s = Inr False"
  by (auto simp: both_succeeded_def)

lemma nm_result_text:
  assumes "has_result_text r"
  shows "\<exists>t. nm_result r = Inr (JStr t)"
proof (cases r)
  case (JDict kvs)
  note h = assms [unfolded has_result_text_def JDict, simplified]
  obtain d where d: "map_of kvs ''data'' = Some d"
    using h by (cases "map_of kvs ''data''") simp_all
  obtain xs where xs: "d = JList xs"
    using h d by (cases d) simp_all
  obtain x rest where x: "xs = x # rest"
    using h d xs by (cases xs) simp_all
  obtain fields where f: "x = JDict fields"
    using h d xs x by (cases x) simp_all
  show ?thesis
  proof (cases "map_of fields ''nm_result''")
    case None
    then show ?thesis
      by (simp add: nm_result_def JDict d xs x f)
  next
    case (Some v)
    then obtain t where "v = JStr t"
      using h d xs x f by (cases v) simp_all
    with Some show ?thesis
      by (simp add: nm_result_def JDict d xs x f)
  qed
qed (use assms in \<open>simp_all add: has_result_text_def\<close>)

lemma main_classify_failure:
  assumes "both_succeeded (calc_response l) (save_response l) = Inr False"
  shows "main_classify rt l =
     (None, l\<lparr>success := False, error_message := check_logs,
              message := Some (failure_message check_logs)\<rparr>)"
  using assms by (simp add: main_classify_def)

lemma main_classify_success:
  assumes "both_succeeded (calc_response l) (save_response l) = Inr True"
    and "has_result_text (calc_response l)" and "has_result_text (save_response l)"
  shows "main_classify rt l =
     (None, l\<lparr>success := True,
              message := Some (success_message (clean_result (result_text (calc_response l)))
                                 (result_text (save_response l)))\<rparr>)"
proof -
  obtain tc where tc: "nm_result (calc_response l) = Inr (JStr tc)"
    using nm_result_text [OF assms(2)] by blast
  obtain ts where ts: "nm_result (save_response l) = Inr (JStr ts)"
    using nm_result_text [OF assms(3)] by blast
  show ?thesis
    using assms(1) by (simp add: main_classify_def tc ts result_text_def py_format_def Let_def)
qed

lemma main_classify_message:
  assumes "main_classify rt l = (r, l')"
  shows "r = None \<Longrightarrow> message l' \<noteq> None"
    and "r \<noteq> None \<Longrightarrow> message l' = message l"
    and "session l' = session l"
  using assms
  by (auto simp: main_classify_def Let_def split: sum.splits bool.splits json.splits)

section \<open>Properties of the protected region and of a whole run\<close>

lemma main_submit_locals:
  assumes "main_submit rt w ev session_id sess hdrs provider_id vals l tr = (r, l', tr')"
  shows "message l' = message l" and "session l' = session l"
  using assms
  by (auto simp: main_submit_def Let_def split: prod.splits sum.splits)

text \<open>Once both logins and the lookup have returned, the rest of the region is fixed.\<close>

lemma main_try_eq:
  assumes "main_metering rt w ev now l tr = (Inr vals, l1, tr1)"
    and "main_billing rt w ev l1 tr1 = (Inr (session_id, sess, hdrs, provider_id), l2, tr2)"
  shows "main_try rt w ev now l tr =
     (case main_classify rt
             (l2\<lparr>calc_response :=
                   returned (w (tr2 @ [calc_event rt ev session_id hdrs provider_id vals])),
                 save_response :=
                   returned (w (tr2 @ [calc_event rt ev session_id hdrs provider_id vals,
                                       save_event rt ev session_id hdrs provider_id vals]))\<rparr>) of
        (r, l4) \<Rightarrow>
          (r, l4, tr2 @ [calc_event rt ev session_id hdrs provider_id vals,
                         save_event rt ev session_id hdrs provider_id vals]))"
proof -
  have "2 \<le> length vals"
    using assms(1) by (rule main_metering_Inr)
  then show ?thesis
    by (simp add: main_try_def assms main_submit_eq)
qed

text \<open>
  The region binds \<open>message\<close> exactly when it ends without an exception.
\<close>

lemma main_try_message:
  assumes "main_try rt w ev now l tr = (r, l', tr')"
  shows "r = None \<Longrightarrow> message l' \<noteq> None"
    and "r \<noteq> None \<Longrightarrow> message l' = message l"
proof -
  obtain r1 l1 tr1 where m: "main_metering rt w ev now l tr = (r1, l1, tr1)"
    by (cases "main_metering rt w ev now l tr") auto
  have m1: "message l1 = message l"
    using m by (rule main_metering_locals)
  show "r = None \<Longrightarrow> message l' \<noteq> None" and "r \<noteq> None \<Longrightarrow> message l' = message l"
  proof (atomize (full), cases r1)
    case (Inl e)
    with assms m m1 show "(r = None \<longrightarrow> message l' \<noteq> None) \<and> (r \<noteq> None \<longrightarrow> message l' = message l)"
      by (auto simp: main_try_def)
  next
    case (Inr vals)
    obtain r2 l2 tr2 where b: "main_billing rt w ev l1 tr1 = (r2, l2, tr2)"
      by (cases "main_billing rt w ev l1 tr1") auto
    have m2: "message l2 = message l"
      using main_billing_locals(1) [OF b] m1 by simp
    show "(r = None \<longrightarrow> message l' \<noteq> None) \<and> (r \<noteq> None \<longrightarrow> message l' = message l)"
    proof (cases r2)
      case (Inl e)
      with assms m b m2 Inr show ?thesis
        by (auto simp: main_try_def)
    next
      case q: (Inr quad)
      obtain session_id sess hdrs provider_id where quad:
        "quad = (session_id, sess, hdrs, provider_id)"
        by (cases quad) auto
      obtain r3 l3 tr3 where s:
        "main_submit rt w ev session_id sess hdrs provider_id vals l2 tr2 = (r3, l3, tr3)"
        by (cases "main_submit rt w ev session_id sess hdrs provider_id vals l2 tr2") auto
      have m3: "message l3 = message l"
        using main_submit_locals(1) [OF s] m2 by simp
      show ?thesis
      proof (cases r3)
        case (Some e)
        with assms m b s m3 Inr q quad show ?thesis
          by (auto simp: main_try_def)
      next
        case None
        obtain r4 l4 where c: "main_classify rt l3 = (r4, l4)"
          by (cases "main_classify rt l3") auto
        from assms m b s Inr q quad None c have "r = r4" "l' = l4"
          by (auto simp: main_try_def)
        with main_classify_message(1,2) [OF c] m3 show ?thesis
          by auto
      qed
    qed
  qed
qed

lemma is_Exception_iff: "is_Exception e \<longleftrightarrow> (\<forall>n. e \<noteq> SystemExit n)"
  by (cases e) (simp_all add: is_Exception_def)

lemma teardown_update:
  "teardown (l\<lparr>success := a, error_message := b, message := c\<rparr>) = teardown l"
  by (simp add: teardown_def)

text \<open>
  A \<open>SystemExit\<close> passes the \<^verbatim>\<open>except\<close> clause and meets a \<^verbatim>\<open>finally\<close> block that reads
  \<open>message\<close>, which nothing has bound: the run ends there with \<open>UnboundLocalError\<close>, with no
  request to the bot API and no \<^verbatim>\<open>session.close()\<close>.
\<close>

lemma main_run_SystemExit:
  assumes "main_try rt w ev now initial_locals [] = (Some (SystemExit n), l, tr)"
  shows "main_run rt w ev now = (Some (UnboundLocalError ''message''), l, tr)"
proof -
  have "message l = message initial_locals"
    using main_try_message(2) [OF assms] by simp
  then have "message l = None"
    by (simp add: initial_locals_def)
  then show ?thesis
    by (simp add: main_run_def assms main_except_def is_Exception_def main_finally_unbound)
qed

text \<open>Any other exception is caught, reported to every recipient, and the run returns.\<close>

lemma main_run_Exception:
  assumes "notifier_answers_ok w"
    and "main_try rt w ev now initial_locals [] = (Some e, l, tr)"
    and "is_Exception e"
  shows "main_run rt w ev now =
     (None,
      l\<lparr>success := False, error_message := py_str rt e,
        message := Some (unexpected_message (py_str rt e))\<rparr>,
      tr @ notifications (telegram_bot_token ev) (unexpected_message (py_str rt e))
             (recipients ev)
         @ teardown l)"
  using assms(2,3)
  by (simp add: main_run_def main_except_def main_finally_bound [OF assms(1)] teardown_update)

lemma main_run_None:
  assumes "notifier_answers_ok w"
    and "main_try rt w ev now initial_locals [] = (None, l, tr)"
    and "message l = Some txt"
  shows "main_run rt w ev now =
     (None, l, tr @ notifications (telegram_bot_token ev) txt (recipients ev) @ teardown l)"
  using assms(2,3)
  by (simp add: main_run_def main_except_def main_finally_bound [OF assms(1)])

lemma scripted_notifier_ok:
  assumes "list_all notifier_answer_ok answers"
  shows "notifier_answers_ok (scripted answers)"
proof -
  have "notifier_answer_ok (scripted answers tr)" for tr
  proof (cases "0 < length (filter is_request tr) \<and> length (filter is_request tr) \<le> length answers")
    case True
    then have "answers ! (length (filter is_request tr) - 1) \<in> set answers"
      by (intro nth_mem) linarith
    with assms True show ?thesis
      by (simp add: scripted_def Let_def list_all_iff)
  next
    case False
    then show ?thesis
      by (auto simp: scripted_def Let_def notifier_answer_ok_def)
  qed
  then show ?thesis
    by (simp add: notifier_answers_ok_def)
qed

section \<open>The sample runs\<close>

lemma sample_setup: "setup_environment sample_environ = Inr sample_env"
  by (simp add: setup_environment_def sample_environ_def sample_env_def required_env_vars_def
        environ_get_def)

lemma sample_recipients: "recipients sample_env = [''1'', ''2'']"
  by (simp add: recipients_def sample_env_def)

lemma snapshot_two_vals: "get_electricity_vals snapshot_two = Inr [123, 568]"
proof -
  have "get_electricity_vals snapshot_two = rounded_vals meter_two"
    using snapshot_two_ok snapshot_two_first by (simp add: get_electricity_vals_find)
  also have "\<dots> = Inr [123, 568]"
    by (simp add: rounded_vals_def meter_vals_def meter_two_def round_123 round_568)
  finally show ?thesis .
qed

lemma snapshot_water_ok: "snapshot_ok snapshot_water"
  by (simp add: snapshot_water_def snapshot_ok_def sensor_ok_def meter_ok_def water_meter_def)

lemma snapshot_water_none: "find is_electricity (all_meters snapshot_water) = None"
  by (simp add: snapshot_water_def all_meters_def meters_of_def is_electricity_def
        water_meter_def electricity_label_def)

text \<open>The two metering calls against a script that starts with their two answers.\<close>

lemma sample_login_call:
  "authenticate_saures (scripted (saures_login_ok # rest))
      (saures_api_url sample_env) (login sample_env) (saures_pass sample_env) [] =
        (Inr (JStr ''S1''), [sample_login_event])"
  by (simp add: authenticate_saures_def request_def scripted_def is_request_def
        sample_env_def sample_login_event_def saures_login_ok_def except_value_key_def)

lemma sample_meters_call:
  "fetch_saures_meter_data rt (scripted (saures_login_ok # saures_meters_ok d # rest))
      (saures_api_url sample_env) (JStr ''S1'') (meter_id sample_env) sample_time
      [sample_login_event] = (Inr d, sample_metering_trace)"
  by (simp add: fetch_saures_meter_data_def request_def scripted_def is_request_def
        sample_env_def sample_time_def sample_login_event_def sample_metering_trace_def
        saures_meters_ok_def except_value_key_def py_format_def)

lemma sample_metering:
  "main_metering rt (scripted (saures_login_ok # saures_meters_ok snapshot_two # rest))
      sample_env sample_time initial_locals [] =
        (Inr [123, 568], initial_locals, sample_metering_trace)"
  by (simp add: main_metering_def sample_login_call sample_meters_call snapshot_two_vals)

lemma sample_billing:
  "main_billing rt
      (scripted (saures_login_ok # saures_meters_ok d # mosenergo_login_ok
                   # mosenergo_provider_ok # rest))
      sample_env initial_locals sample_metering_trace =
        (Inr (JStr ''M1'', Session, browser_headers, JInt 6),
         initial_locals\<lparr>session := Some Session\<rparr>, sample_billing_trace)"
  by (simp add: main_billing_def authenticate_mosenergo_def fetch_mosenergo_provider_def
        request_def scripted_def is_request_def sample_env_def sample_metering_trace_def
        sample_billing_trace_def sample_login_event_def mosenergo_login_ok_def
        mosenergo_provider_ok_def except_value_key_def py_format_def Let_def)

text \<open>Scenario A: the region ends with the \<open>SystemExit\<close> of \<^verbatim>\<open>authenticate_saures\<close>.\<close>

lemma auth_fails_try:
  "main_try rt world_auth_fails sample_env now initial_locals [] =
     (Some (SystemExit 1), initial_locals, [sample_login_event])"
  by (simp add: main_try_def main_metering_def authenticate_saures_def request_def
        world_auth_fails_def scripted_def is_request_def sample_env_def except_value_key_def
        sample_login_event_def)

text \<open>The provider lookup fails after the session was opened and bound.\<close>

lemma provider_fails_try:
  "main_try rt world_provider_fails sample_env sample_time initial_locals [] =
     (Some (SystemExit 1), initial_locals\<lparr>session := Some Session\<rparr>, sample_billing_trace)"
proof -
  have "main_billing rt world_provider_fails sample_env initial_locals sample_metering_trace =
      (Inl (SystemExit 1), initial_locals\<lparr>session := Some Session\<rparr>, sample_billing_trace)"
    by (simp add: main_billing_def authenticate_mosenergo_def fetch_mosenergo_provider_def
          request_def world_provider_fails_def scripted_def is_request_def sample_env_def
          sample_metering_trace_def sample_billing_trace_def sample_login_event_def
          mosenergo_login_ok_def except_value_key_def py_format_def Let_def)
  then show ?thesis
    by (simp add: main_try_def world_provider_fails_def [symmetric]
          sample_metering [of rt "[mosenergo_login_ok, Body (JDict [(''success'', JBool False)]),
            telegram_ok, telegram_ok]", folded world_provider_fails_def])
qed

lemma world_success_ok: "notifier_answers_ok world_success"
  unfolding world_success_def
  by (rule scripted_notifier_ok)
     (simp add: notifier_answer_ok_def saures_login_ok_def saures_meters_ok_def
        mosenergo_login_ok_def mosenergo_provider_ok_def submission_ok_def telegram_ok_def)

lemma world_no_values_ok: "notifier_answers_ok world_no_values"
  unfolding world_no_values_def
  by (rule scripted_notifier_ok)
     (simp add: notifier_answer_ok_def saures_login_ok_def saures_meters_ok_def telegram_ok_def)

lemma world_calc_fails_ok: "notifier_answers_ok world_calc_fails"
  unfolding world_calc_fails_def
  by (rule scripted_notifier_ok)
     (simp add: notifier_answer_ok_def saures_login_ok_def saures_meters_ok_def
        mosenergo_login_ok_def mosenergo_provider_ok_def submission_ok_def telegram_ok_def)

text \<open>Scenario B up to the classification: the two results as the submissions return them.\<close>

lemma success_responses:
  "returned (world_success
      (sample_billing_trace
         @ [calc_event rt sample_env (JStr ''M1'') browser_headers (JInt 6) [123, 568]])) =
     JDict [(''success'', JBool True),
            (''data'', JList [JDict [(''nm_result'', JStr (font_open @ ''<b>12 rub</b></font>''))]])]"
  "returned (world_success
      (sample_billing_trace
         @ [calc_event rt sample_env (JStr ''M1'') browser_headers (JInt 6) [123, 568],
            save_event rt sample_env (JStr ''M1'') browser_headers (JInt 6) [123, 568]])) =
     JDict [(''success'', JBool True),
            (''data'', JList [JDict [(''nm_result'', JStr ''<b>saved</b>'')]])]"
  by (simp_all add: world_success_def scripted_def is_request_def sample_billing_trace_def
        sample_metering_trace_def sample_login_event_def calc_event_def save_event_def
        returned_def submission_ok_def)

lemma clean_sample: "clean_result (font_open @ ''<b>12 rub</b></font>'') = ''**12 rub**''"
  by (simp add: clean_result_def font_open_def)

lemma success_try:
  "main_try rt world_success sample_env sample_time initial_locals [] =
     (None,
      initial_locals
        \<lparr>session := Some Session,
         calc_response :=
           JDict [(''success'', JBool True),
                  (''data'', JList [JDict [(''nm_result'',
                                            JStr (font_open @ ''<b>12 rub</b></font>''))]])],
         save_response :=
           JDict [(''success'', JBool True),
                  (''data'', JList [JDict [(''nm_result'', JStr ''<b>saved</b>'')]])],
         success := True,
         message := Some (success_message ''**12 rub**'' ''<b>saved</b>'')\<rparr>,
      sample_billing_trace
        @ [calc_event rt sample_env (JStr ''M1'') browser_headers (JInt 6) [123, 568],
           save_event rt sample_env (JStr ''M1'') browser_headers (JInt 6) [123, 568]])"
proof -
  have m: "main_metering rt world_success sample_env sample_time initial_locals [] =
      (Inr [123, 568], initial_locals, sample_metering_trace)"
    unfolding world_success_def by (rule sample_metering)
  have b: "main_billing rt world_success sample_env initial_locals sample_metering_trace =
      (Inr (JStr ''M1'', Session, browser_headers, JInt 6),
       initial_locals\<lparr>session := Some Session\<rparr>, sample_billing_trace)"
    unfolding world_success_def by (rule sample_billing)
  show ?thesis
    unfolding main_try_eq [OF m b] success_responses
    by (simp add: main_classify_def both_succeeded_def nm_result_def clean_sample
          py_format_def initial_locals_def)
qed

section \<open>The claims about a run that ends with \<open>SystemExit\<close>\<close>

text \<open>
  C1. The claim: on every outcome of a run, a failed metering login included, the
  notifier is called for each configured recipient before the process exits. The code
  does not do that. At the metering login answering with a status that is not \<^verbatim>\<open>ok\<close>,
  with the two recipients \<open>1\<close> and \<open>2\<close> configured and the log file open, \<^verbatim>\<open>main\<close> ends with
  \<open>UnboundLocalError\<close> for \<open>message\<close> and the only request of the whole run is the login:
  no request to the bot API is made.
\<close>

theorem no_notification_after_failed_login:
  "main rt world_auth_fails sample_files sample_environ now =
     (Some (UnboundLocalError ''message''), [sample_login_event])
   \<and> recipients sample_env = [''1'', ''2'']
   \<and> filter is_notification (snd (main rt world_auth_fails sample_files sample_environ now)) = []"
proof -
  have "main rt world_auth_fails sample_files sample_environ now =
      (Some (UnboundLocalError ''message''), [sample_login_event])"
    by (simp add: main_def sample_setup setup_logging_def sample_files_def
          main_run_SystemExit [OF auth_fails_try])
  then show ?thesis
    by (simp add: sample_recipients is_notification_def sample_login_event_def)
qed

text \<open>
  C7. The claim: teardown closes the session of the billing provider exactly once on
  every path on which it was created. The code does not do that. At the billing login
  succeeding and the provider lookup answering \<^verbatim>\<open>success: false\<close>, the session is created
  and bound in \<^verbatim>\<open>main\<close>, and the run ends with \<open>UnboundLocalError\<close> in the notification loop,
  before the teardown: the trace has the creation of the session and no close.
\<close>

theorem session_left_open_after_failed_lookup:
  "main_run rt world_provider_fails sample_env sample_time =
     (Some (UnboundLocalError ''message''), initial_locals\<lparr>session := Some Session\<rparr>,
      sample_billing_trace)
   \<and> count_list sample_billing_trace SessionNew = 1
   \<and> count_list sample_billing_trace SessionClose = 0"
  by (simp add: main_run_SystemExit [OF provider_fails_try] sample_billing_trace_def
        sample_metering_trace_def sample_login_event_def)

lemma filter_notifications:
  "filter is_notification (notifications token txt chats) = notifications token txt chats"
  by (induction chats)
     (simp_all add: notifications_def notification_def is_notification_def telegram_url_def)

lemma filter_teardown: "filter is_notification (teardown l) = []"
  by (cases "session l") (simp_all add: teardown_def is_notification_def)

lemma filter_submissions:
  "\<not> is_notification (calc_event rt ev session_id hdrs provider_id vals)"
  "\<not> is_notification (save_event rt ev session_id hdrs provider_id vals)"
  by (simp_all add: is_notification_def calc_event_def save_event_def)

lemma sample_billing_trace_quiet: "filter is_notification sample_billing_trace = []"
  by (simp add: sample_billing_trace_def sample_metering_trace_def sample_login_event_def
        is_notification_def)

lemma sample_token: "telegram_bot_token sample_env = ''tok''"
  by (simp add: sample_env_def)

section \<open>The claim about the markup of the result texts\<close>

text \<open>
  C4. The claim: on a successful run the message carries both result texts with the font
  wrapper removed and the bold tags turned into Markdown bold. The code does that to the
  CalcCharge text only. At both submissions succeeding, CalcCharge with the text
  \<^verbatim>\<open><font color='#ff6347'><b>12 rub</b></font>\<close> and SaveIndications with \<^verbatim>\<open><b>saved</b>\<close>, the message
  carries \<^verbatim>\<open>**12 rub**\<close> and, unchanged, \<^verbatim>\<open><b>saved</b>\<close>, where the same
  replacements would have given \<^verbatim>\<open>**saved**\<close>.
\<close>

theorem save_result_keeps_its_markup:
  "message (fst (snd (main_run rt world_success sample_env sample_time))) =
     Some (success_message ''**12 rub**'' ''<b>saved</b>'')
   \<and> success (fst (snd (main_run rt world_success sample_env sample_time)))
   \<and> clean_result ''<b>saved</b>'' = ''**saved**''
   \<and> filter is_notification (snd (snd (main_run rt world_success sample_env sample_time))) =
       notifications ''tok'' (success_message ''**12 rub**'' ''<b>saved</b>'') [''1'', ''2'']"
proof -
  obtain l tr where region: "main_try rt world_success sample_env sample_time initial_locals [] =
      (None, l, tr)"
    and msg: "message l = Some (success_message ''**12 rub**'' ''<b>saved</b>'')"
    and ok: "success l"
    and tr: "tr = sample_billing_trace
        @ [calc_event rt sample_env (JStr ''M1'') browser_headers (JInt 6) [123, 568],
           save_event rt sample_env (JStr ''M1'') browser_headers (JInt 6) [123, 568]]"
    using success_try [of rt] by simp
  have run: "main_run rt world_success sample_env sample_time =
      (None, l,
       tr @ notifications ''tok'' (success_message ''**12 rub**'' ''<b>saved</b>'')
              [''1'', ''2'']
          @ teardown l)"
    using main_run_None [OF world_success_ok region msg]
    by (simp only: sample_token sample_recipients)
  have clean: "clean_result ''<b>saved</b>'' = ''**saved**''"
    by (simp add: clean_result_def font_open_def)
  have quiet: "filter is_notification tr = []"
    unfolding tr by (simp add: sample_billing_trace_quiet filter_submissions)
  show ?thesis
    unfolding run by (simp add: msg ok clean quiet filter_notifications filter_teardown)
qed

section \<open>The texts and the requests, spelled out\<close>

lemma failure_text:
  "failure_message check_logs =
     [CHR 0xE2, CHR 0x9D, CHR 0x8C] @ '' *Mosenergosbyt Operation Failure*''
       @ [CHR 0x0A, CHR 0x0A] @ ''Error: Operation failed. Check logs for details.''"
  by (simp add: failure_message_def check_logs_def cross_mark_def newline_def)

lemma unexpected_text:
  "unexpected_message err =
     [CHR 0xE2, CHR 0x9D, CHR 0x8C] @ '' *Mosenergosbyt Script Unexpected Failure*''
       @ [CHR 0x0A, CHR 0x0A] @ ''Error: '' @ err"
  by (simp add: unexpected_message_def cross_mark_def newline_def)

lemma success_text:
  "success_message a b =
     [CHR 0xE2, CHR 0x9C, CHR 0x85] @ '' *Mosenergosbyt Operation Success*''
       @ [CHR 0x0A, CHR 0x0A] @ a @ [CHR 0x0A] @ b"
  by (simp add: success_message_def check_mark_def newline_def)

lemma not_enough_text: "not_enough = ''Not enough electricity values received.''"
  by (simp add: not_enough_def)

lemma notifications_literal:
  "notifications token body (recipients ev) =
     map (\<lambda>chat. Post (''https://api.telegram.org/bot'' @ token @ ''/sendMessage'') []
                    [(''chat_id'', JStr chat), (''text'', JStr body),
                     (''parse_mode'', JStr ''Markdown'')])
       (py_split CHR '','' (telegram_chat_id ev))"
  by (simp add: notifications_def notification_def recipients_def telegram_url_def
        telegram_payload_def)

lemma calc_event_literal:
  "calc_event rt ev session_id hdrs provider_id vals =
     SessionPost
       (mosenergo_lk_url ev @ ''?action=sql&query=bytProxy&session='' @ py_format rt session_id)
       hdrs
       [(''nn_phone'', JStr ''+7 (499) 550-9-550''), (''plugin'', JStr ''bytProxy''),
        (''pr_flat_meter'', JInt 0), (''proxyquery'', JStr ''CalcCharge''),
        (''vl_provider'', provider_id), (''vl_t1'', JInt (vals ! 0)),
        (''vl_t2'', JInt (vals ! 1))]"
  by (simp add: calc_event_def calc_url_def calc_payload_def dict_update_def)

lemma save_event_literal:
  "save_event rt ev session_id hdrs provider_id vals =
     SessionPost
       (mosenergo_lk_url ev @ ''?action=sql&query=SaveIndications&session=''
          @ py_format rt session_id)
       hdrs
       [(''plugin'', JStr ''propagateMesInd''), (''pr_flat_meter'', JInt 0),
        (''vl_provider'', provider_id), (''vl_t1'', JInt (vals ! 0)),
        (''vl_t2'', JInt (vals ! 1))]"
  by (simp add: save_event_def save_url_def save_payload_def dict_update_def)



section \<open>The exit status of the process\<close>

lemma setup_environment_Inl: "setup_environment environ = Inl e \<Longrightarrow> e = SystemExit 1"
  by (auto simp: setup_environment_def Let_def split: if_splits)

lemma exit_status_main_run:
  assumes "notifier_answers_ok w"
  shows "exit_status (fst (main_run rt w ev now)) =
     (case fst (main_try rt w ev now initial_locals []) of
        Some (SystemExit _) \<Rightarrow> 1
      | _ \<Rightarrow> 0)"
proof -
  obtain r l tr where region: "main_try rt w ev now initial_locals [] = (r, l, tr)"
    by (cases "main_try rt w ev now initial_locals []") auto
  show ?thesis
  proof (cases r)
    case None
    then obtain body where "message l = Some body"
      using main_try_message(1) [OF region] by auto
    with region None show ?thesis
      by (simp add: main_run_None [OF assms] exit_status_def)
  next
    case (Some e)
    show ?thesis
    proof (cases "is_Exception e")
      case True
      with region Some show ?thesis
        by (cases e) (simp_all add: main_run_Exception [OF assms] exit_status_def is_Exception_def)
    next
      case False
      then obtain n where "e = SystemExit n"
        by (cases e) (simp_all add: is_Exception_def)
      with region Some show ?thesis
        by (simp add: main_run_SystemExit exit_status_def)
    qed
  qed
qed

text \<open>
  The exit status of a whole run, where the bot API answers with JSON objects: 1 when a
  variable is missing, when the log file cannot be opened, and when the region ends
  with \<open>SystemExit\<close> of whatever code; 0 otherwise.
\<close>

lemma exit_status_main:
  assumes "notifier_answers_ok w"
  shows "exit_status (fst (main rt w can_open environ now)) =
       (case setup_environment environ of
          Inl _ \<Rightarrow> 1
        | Inr ev \<Rightarrow>
            if \<not> can_open (log_file ev) then 1
            else (case fst (main_try rt w ev now initial_locals []) of
                    Some (SystemExit _) \<Rightarrow> 1
                  | _ \<Rightarrow> 0))"
proof (cases "setup_environment environ")
  case (Inl e)
  then show ?thesis
    using setup_environment_Inl [OF Inl] by (simp add: main_def exit_status_def)
next
  case (Inr ev)
  show ?thesis
  proof (cases "can_open (log_file ev)")
    case True
    then have "fst (main rt w can_open environ now) = fst (main_run rt w ev now)"
      by (simp add: main_def Inr setup_logging_def split: prod.splits)
    with True show ?thesis
      by (simp add: Inr exit_status_main_run [OF assms])
  next
    case False
    then show ?thesis
      by (simp add: main_def Inr setup_logging_def exit_status_def)
  qed
qed

text \<open>A log file that cannot be opened ends the run before any request, with status 1.\<close>

lemma main_log_file_locked:
  "main rt w locked_files sample_environ now = (Some OSError, [])"
  "exit_status (fst (main rt w locked_files sample_environ now)) = 1"
  by (simp_all add: main_def sample_setup setup_logging_def locked_files_def exit_status_def)

lemma no_values_try:
  "main_try rt world_no_values sample_env sample_time initial_locals [] =
     (Some (ValueError not_enough), initial_locals\<lparr>error_message := not_enough\<rparr>,
      sample_metering_trace)"
proof -
  have "get_electricity_vals snapshot_water = Inr []"
    using snapshot_water_ok snapshot_water_none by (simp add: get_electricity_vals_find)
  then show ?thesis
    by (simp add: main_try_def main_metering_def world_no_values_def sample_login_call
          sample_meters_call)
qed

text \<open>
  C5. The claim: a fatal condition inside the protected region, an authentication
  failure among them, is caught once and converted to a failure outcome, and the
  process exits with status 0. The code does not do that. At the metering login
  answering with a status that is not \<^verbatim>\<open>ok\<close>, with the configuration complete and the log
  file open, the region ends with \<open>SystemExit 1\<close>, no failure outcome is built, \<^verbatim>\<open>main\<close> is
  left by the \<open>UnboundLocalError\<close> of the \<^verbatim>\<open>finally\<close> block and the process exits with
  status 1. The sibling path does what the claim says: with too few readings the
  \<open>ValueError\<close> is caught, \<^verbatim>\<open>main\<close> returns and the status is 0.
\<close>

theorem exit_status_after_failed_login:
  "fst (main_try sample_runtime world_auth_fails sample_env sample_time initial_locals []) =
     Some (SystemExit 1)
   \<and> main sample_runtime world_auth_fails sample_files sample_environ sample_time =
       (Some (UnboundLocalError ''message''), [sample_login_event])
   \<and> exit_status
        (fst (main sample_runtime world_auth_fails sample_files sample_environ sample_time)) = 1
   \<and> fst (main_try sample_runtime world_no_values sample_env sample_time initial_locals []) =
       Some (ValueError ''Not enough electricity values received.'')
   \<and> fst (main sample_runtime world_no_values sample_files sample_environ sample_time) = None
   \<and> exit_status
        (fst (main sample_runtime world_no_values sample_files sample_environ sample_time)) = 0"
proof -
  have a: "main sample_runtime world_auth_fails sample_files sample_environ sample_time =
      (Some (UnboundLocalError ''message''), [sample_login_event])"
    by (simp add: main_def sample_setup setup_logging_def sample_files_def
          main_run_SystemExit [OF auth_fails_try])
  have "is_Exception (ValueError not_enough)"
    by (simp add: is_Exception_def)
  from main_run_Exception [OF world_no_values_ok no_values_try this]
  have b: "fst (main sample_runtime world_no_values sample_files sample_environ sample_time) =
      None"
    by (simp add: main_def sample_setup setup_logging_def sample_files_def)
  show ?thesis
    unfolding a b
    by (simp add: auth_fails_try no_values_try not_enough_text exit_status_def)
qed

section \<open>Too few readings\<close>




lemma snapshot_null_not_ok: "\<not> snapshot_ok snapshot_null"
  by (simp add: snapshot_ok_def snapshot_null_def)




section \<open>The two submissions and the outcome\<close>

lemma teardown_bound:
  "session l = Some sess \<Longrightarrow> teardown l = [SessionClose]"
  by (simp add: teardown_def)

text \<open>
  A run whose logins and lookup have returned: the region sends both submissions, ends
  without an exception, and the run notifies every recipient and closes the session.
\<close>

lemma main_run_submitted:
  assumes "notifier_answers_ok w"
    and "main_metering rt w ev now initial_locals [] = (Inr vals, l1, tr1)"
    and "main_billing rt w ev l1 tr1 = (Inr (session_id, sess, hdrs, provider_id), l2, tr2)"
    and "main_classify rt
           (l2\<lparr>calc_response :=
                 returned (w (tr2 @ [calc_event rt ev session_id hdrs provider_id vals])),
               save_response :=
                 returned (w (tr2 @ [calc_event rt ev session_id hdrs provider_id vals,
                                     save_event rt ev session_id hdrs provider_id vals]))\<rparr>) =
         (None, l)"
    and "message l = Some body"
  shows "main_run rt w ev now =
     (None, l,
      tr2 @ [calc_event rt ev session_id hdrs provider_id vals,
             save_event rt ev session_id hdrs provider_id vals]
          @ notifications (telegram_bot_token ev) body (recipients ev) @ [SessionClose])"
proof -
  have region: "main_try rt w ev now initial_locals [] =
      (None, l, tr2 @ [calc_event rt ev session_id hdrs provider_id vals,
                       save_event rt ev session_id hdrs provider_id vals])"
    by (simp add: main_try_eq [OF assms(2,3)] assms(4))
  have "session l2 = Some sess"
    using main_billing_Inr(1) [OF assms(3)] by simp
  then have "session l = Some sess"
    using main_classify_message(3) [OF assms(4)] by simp
  then have "teardown l = [SessionClose]"
    by (rule teardown_bound)
  with main_run_None [OF assms(1) region assms(5)] show ?thesis
    by simp
qed

lemma submissions_return:
  assumes "main_metering rt w ev now initial_locals [] = (Inr vals, l1, tr1)"
  shows "fst (send_mosenergo_data rt w (mosenergo_lk_url ev) session_id sess hdrs provider_id
                vals ''CalcCharge'' calc_payload tr) =
           Inr (returned (w (tr @ [calc_event rt ev session_id hdrs provider_id vals])))"
    and "fst (send_mosenergo_data rt w (mosenergo_lk_url ev) session_id sess hdrs provider_id
                vals ''SaveIndications'' save_payload tr) =
           Inr (returned (w (tr @ [save_event rt ev session_id hdrs provider_id vals])))"
proof -
  have two: "2 \<le> length vals"
    using assms by (rule main_metering_Inr)
  show "fst (send_mosenergo_data rt w (mosenergo_lk_url ev) session_id sess hdrs provider_id
                vals ''CalcCharge'' calc_payload tr) =
           Inr (returned (w (tr @ [calc_event rt ev session_id hdrs provider_id vals])))"
    by (simp add: send_mosenergo_data_eq [OF two] calc_event_def Let_def)
  show "fst (send_mosenergo_data rt w (mosenergo_lk_url ev) session_id sess hdrs provider_id
                vals ''SaveIndications'' save_payload tr) =
           Inr (returned (w (tr @ [save_event rt ev session_id hdrs provider_id vals])))"
    by (simp add: send_mosenergo_data_eq [OF two] save_event_def Let_def)
qed

text \<open>
  C6. On a run whose logins and lookup have returned (so two readings are at hand), with
  the bot API answering with JSON objects: each submission returns what its request was
  answered, which is the absent result \<^verbatim>\<open>None\<close> for a failed request, and raises
  nothing. When the request of either submission fails, both requests are still in the
  trace, CalcCharge first, the run ends without an exception and with the success flag
  false, and the message, sent to every recipient before the session is closed, is the
  fixed text \<^verbatim>\<open>Error: Operation failed. Check logs for details.\<close> under the heading
  \<^verbatim>\<open>*Mosenergosbyt Operation Failure*\<close>: nothing of the failed request is in it. The two
  requests \<open>ce\<close> and \<open>se\<close>, the text and the request to the bot API are written out.
\<close>

theorem failed_submission_is_not_fatal:
  fixes rt :: runtime and w :: world and ev :: env_vars and now :: string
    and vals :: "int list" and session_id provider_id :: json and sess :: session
    and hdrs :: headers and l1 l2 :: locals and tr1 tr2 :: "event list"
    and ce se :: event and generic :: string and told :: "string \<Rightarrow> event"
  defines "ce \<equiv>
      SessionPost
        (mosenergo_lk_url ev @ ''?action=sql&query=bytProxy&session='' @ py_format rt session_id)
        hdrs
        [(''nn_phone'', JStr ''+7 (499) 550-9-550''), (''plugin'', JStr ''bytProxy''),
         (''pr_flat_meter'', JInt 0), (''proxyquery'', JStr ''CalcCharge''),
         (''vl_provider'', provider_id), (''vl_t1'', JInt (vals ! 0)),
         (''vl_t2'', JInt (vals ! 1))]"
    and "se \<equiv>
      SessionPost
        (mosenergo_lk_url ev @ ''?action=sql&query=SaveIndications&session=''
           @ py_format rt session_id)
        hdrs
        [(''plugin'', JStr ''propagateMesInd''), (''pr_flat_meter'', JInt 0),
         (''vl_provider'', provider_id), (''vl_t1'', JInt (vals ! 0)),
         (''vl_t2'', JInt (vals ! 1))]"
    and "generic \<equiv> [CHR 0xE2, CHR 0x9D, CHR 0x8C] @ '' *Mosenergosbyt Operation Failure*''
                      @ [CHR 0x0A, CHR 0x0A]
                      @ ''Error: Operation failed. Check logs for details.''"
    and "told \<equiv> \<lambda>chat. Post (''https://api.telegram.org/bot'' @ telegram_bot_token ev
                                @ ''/sendMessage'') []
                           [(''chat_id'', JStr chat), (''text'', JStr generic),
                            (''parse_mode'', JStr ''Markdown'')]"
  assumes "notifier_answers_ok w"
    and "main_metering rt w ev now initial_locals [] = (Inr vals, l1, tr1)"
    and "main_billing rt w ev l1 tr1 = (Inr (session_id, sess, hdrs, provider_id), l2, tr2)"
    and "w (tr2 @ [ce]) = RequestException \<or> w (tr2 @ [ce, se]) = RequestException"
  shows "fst (send_mosenergo_data rt w (mosenergo_lk_url ev) session_id sess hdrs provider_id
                vals ''CalcCharge'' calc_payload tr2) = Inr (returned (w (tr2 @ [ce])))
     \<and> fst (send_mosenergo_data rt w (mosenergo_lk_url ev) session_id sess hdrs provider_id
                vals ''SaveIndications'' save_payload (tr2 @ [ce])) =
           Inr (returned (w (tr2 @ [ce, se])))
     \<and> returned RequestException = JNull
     \<and> fst (main_run rt w ev now) = None
     \<and> \<not> success (fst (snd (main_run rt w ev now)))
     \<and> message (fst (snd (main_run rt w ev now))) = Some generic
     \<and> snd (snd (main_run rt w ev now)) =
         tr2 @ [ce, se] @ map told (py_split CHR '','' (telegram_chat_id ev)) @ [SessionClose]"
proof -
  have ce: "ce = calc_event rt ev session_id hdrs provider_id vals"
    by (simp add: ce_def calc_event_literal)
  have se: "se = save_event rt ev session_id hdrs provider_id vals"
    by (simp add: se_def save_event_literal)
  have generic: "generic = failure_message check_logs"
    by (simp add: generic_def failure_text)
  have told: "map told (py_split CHR '','' (telegram_chat_id ev)) =
      notifications (telegram_bot_token ev) (failure_message check_logs) (recipients ev)"
    unfolding told_def generic by (simp add: notifications_literal)
  let ?l = "l2\<lparr>calc_response := returned (w (tr2 @ [ce])),
                save_response := returned (w (tr2 @ [ce, se]))\<rparr>"
  have "calc_response ?l = JNull \<or> save_response ?l = JNull"
    using assms(8) by (auto simp: returned_def)
  then have "both_succeeded (calc_response ?l) (save_response ?l) = Inr False"
    by (rule both_succeeded_absent)
  then have classify: "main_classify rt ?l =
      (None, ?l\<lparr>success := False, error_message := check_logs,
                 message := Some (failure_message check_logs)\<rparr>)"
    by (rule main_classify_failure)
  have run: "main_run rt w ev now =
      (None, ?l\<lparr>success := False, error_message := check_logs,
                 message := Some (failure_message check_logs)\<rparr>,
       tr2 @ [ce, se]
         @ notifications (telegram_bot_token ev) (failure_message check_logs) (recipients ev)
         @ [SessionClose])"
    using main_run_submitted [OF assms(5,6,7) classify [unfolded ce se]]
    by (simp add: ce se)
  show ?thesis
    unfolding run told unfolding generic
    using submissions_return [OF assms(6)]
    by (simp add: ce se returned_def)
qed

lemma calc_fails_answers:
  "world_calc_fails
      (sample_billing_trace
         @ [calc_event rt sample_env (JStr ''M1'') browser_headers (JInt 6) [123, 568]]) =
     RequestException"
  by (simp add: world_calc_fails_def scripted_def is_request_def sample_billing_trace_def
        sample_metering_trace_def sample_login_event_def calc_event_def)

lemma sample_chats: "py_split CHR '','' (telegram_chat_id sample_env) = [''1'', ''2'']"
  using sample_recipients by (simp add: recipients_def)

lemma sample_calc_event:
  "calc_event sample_runtime sample_env (JStr ''M1'') browser_headers (JInt 6) [123, 568] =
     SessionPost ''https://m?action=sql&query=bytProxy&session=M1'' browser_headers
       [(''nn_phone'', JStr ''+7 (499) 550-9-550''), (''plugin'', JStr ''bytProxy''),
        (''pr_flat_meter'', JInt 0), (''proxyquery'', JStr ''CalcCharge''),
        (''vl_provider'', JInt 6), (''vl_t1'', JInt 123), (''vl_t2'', JInt 568)]"
  by (simp add: calc_event_literal sample_env_def py_format_def)

lemma sample_save_event:
  "save_event sample_runtime sample_env (JStr ''M1'') browser_headers (JInt 6) [123, 568] =
     SessionPost ''https://m?action=sql&query=SaveIndications&session=M1'' browser_headers
       [(''plugin'', JStr ''propagateMesInd''), (''pr_flat_meter'', JInt 0),
        (''vl_provider'', JInt 6), (''vl_t1'', JInt 123), (''vl_t2'', JInt 568)]"
  by (simp add: save_event_literal sample_env_def py_format_def)

theorem failed_submission_is_not_fatal_witness:
  "notifier_answers_ok world_calc_fails
   \<and> world_calc_fails
        (sample_billing_trace
           @ [SessionPost ''https://m?action=sql&query=bytProxy&session=M1'' browser_headers
                [(''nn_phone'', JStr ''+7 (499) 550-9-550''), (''plugin'', JStr ''bytProxy''),
                 (''pr_flat_meter'', JInt 0), (''proxyquery'', JStr ''CalcCharge''),
                 (''vl_provider'', JInt 6), (''vl_t1'', JInt 123), (''vl_t2'', JInt 568)]]) =
       RequestException
   \<and> fst (main_run sample_runtime world_calc_fails sample_env sample_time) = None
   \<and> \<not> success (fst (snd (main_run sample_runtime world_calc_fails sample_env sample_time)))
   \<and> message (fst (snd (main_run sample_runtime world_calc_fails sample_env sample_time))) =
       Some ([CHR 0xE2, CHR 0x9D, CHR 0x8C] @ '' *Mosenergosbyt Operation Failure*''
                      @ [CHR 0x0A, CHR 0x0A]
                      @ ''Error: Operation failed. Check logs for details.'')
   \<and> snd (snd (main_run sample_runtime world_calc_fails sample_env sample_time)) =
       sample_billing_trace
         @ [SessionPost ''https://m?action=sql&query=bytProxy&session=M1'' browser_headers
              [(''nn_phone'', JStr ''+7 (499) 550-9-550''), (''plugin'', JStr ''bytProxy''),
               (''pr_flat_meter'', JInt 0), (''proxyquery'', JStr ''CalcCharge''),
               (''vl_provider'', JInt 6), (''vl_t1'', JInt 123), (''vl_t2'', JInt 568)],
            SessionPost ''https://m?action=sql&query=SaveIndications&session=M1''
              browser_headers
              [(''plugin'', JStr ''propagateMesInd''), (''pr_flat_meter'', JInt 0),
               (''vl_provider'', JInt 6), (''vl_t1'', JInt 123), (''vl_t2'', JInt 568)],
            Post ''https://api.telegram.org/bottok/sendMessage'' []
              [(''chat_id'', JStr ''1''),
               (''text'',
                JStr ([CHR 0xE2, CHR 0x9D, CHR 0x8C] @ '' *Mosenergosbyt Operation Failure*''
                      @ [CHR 0x0A, CHR 0x0A]
                      @ ''Error: Operation failed. Check logs for details.'')),
               (''parse_mode'', JStr ''Markdown'')],
            Post ''https://api.telegram.org/bottok/sendMessage'' []
              [(''chat_id'', JStr ''2''),
               (''text'',
                JStr ([CHR 0xE2, CHR 0x9D, CHR 0x8C] @ '' *Mosenergosbyt Operation Failure*''
                      @ [CHR 0x0A, CHR 0x0A]
                      @ ''Error: Operation failed. Check logs for details.'')),
               (''parse_mode'', JStr ''Markdown'')],
            SessionClose]"
proof -
  have m: "main_metering sample_runtime world_calc_fails sample_env sample_time
      initial_locals [] = (Inr [123, 568], initial_locals, sample_metering_trace)"
    unfolding world_calc_fails_def by (rule sample_metering)
  have b: "main_billing sample_runtime world_calc_fails sample_env initial_locals
      sample_metering_trace =
      (Inr (JStr ''M1'', Session, browser_headers, JInt 6),
       initial_locals\<lparr>session := Some Session\<rparr>, sample_billing_trace)"
    unfolding world_calc_fails_def by (rule sample_billing)
  have f: "world_calc_fails
      (sample_billing_trace
         @ [calc_event sample_runtime sample_env (JStr ''M1'') browser_headers (JInt 6)
              [123, 568]]) = RequestException"
    by (rule calc_fails_answers)
  note inst = failed_submission_is_not_fatal [OF world_calc_fails_ok m b,
      unfolded calc_event_literal [symmetric] save_event_literal [symmetric]]
  from inst f show ?thesis
    unfolding sample_chats
    by (simp add: world_calc_fails_ok sample_token sample_calc_event sample_save_event)
qed

section \<open>The classification of the outcome\<close>

lemma world_no_data_ok: "notifier_answers_ok world_no_data"
  unfolding world_no_data_def
  by (rule scripted_notifier_ok)
     (simp add: notifier_answer_ok_def saures_login_ok_def saures_meters_ok_def
        mosenergo_login_ok_def mosenergo_provider_ok_def telegram_ok_def)

lemma no_data_responses:
  "returned (world_no_data
      (sample_billing_trace
         @ [calc_event rt sample_env (JStr ''M1'') browser_headers (JInt 6) [123, 568]])) =
     JDict [(''success'', JBool True)]"
  "returned (world_no_data
      (sample_billing_trace
         @ [calc_event rt sample_env (JStr ''M1'') browser_headers (JInt 6) [123, 568],
            save_event rt sample_env (JStr ''M1'') browser_headers (JInt 6) [123, 568]])) =
     JDict [(''success'', JBool True)]"
  by (simp_all add: world_no_data_def scripted_def is_request_def sample_billing_trace_def
        sample_metering_trace_def sample_login_event_def calc_event_def save_event_def
        returned_def)

lemma no_data_classify:
  "main_classify rt
     (l\<lparr>calc_response := JDict [(''success'', JBool True)],
        save_response := JDict [(''success'', JBool True)]\<rparr>) =
     (Some (KeyError (JStr ''data'')),
      l\<lparr>calc_response := JDict [(''success'', JBool True)],
        save_response := JDict [(''success'', JBool True)], success := True\<rparr>)"
  by (simp add: main_classify_def both_succeeded_def nm_result_def Let_def)

lemma no_data_try:
  "main_try rt world_no_data sample_env sample_time initial_locals [] =
     (Some (KeyError (JStr ''data'')),
      initial_locals
        \<lparr>session := Some Session,
         calc_response := JDict [(''success'', JBool True)],
         save_response := JDict [(''success'', JBool True)],
         success := True\<rparr>,
      sample_billing_trace
        @ [calc_event rt sample_env (JStr ''M1'') browser_headers (JInt 6) [123, 568],
           save_event rt sample_env (JStr ''M1'') browser_headers (JInt 6) [123, 568]])"
proof -
  have m: "main_metering rt world_no_data sample_env sample_time initial_locals [] =
      (Inr [123, 568], initial_locals, sample_metering_trace)"
    unfolding world_no_data_def by (rule sample_metering)
  have b: "main_billing rt world_no_data sample_env initial_locals sample_metering_trace =
      (Inr (JStr ''M1'', Session, browser_headers, JInt 6),
       initial_locals\<lparr>session := Some Session\<rparr>, sample_billing_trace)"
    unfolding world_no_data_def by (rule sample_billing)
  show ?thesis
    by (simp add: main_try_eq [OF m b] no_data_responses no_data_classify)
qed


lemma success_indicator_absent: "\<not> success_indicator JNull"
  by (simp add: success_indicator_def)

text \<open>The classification of two results of the documented shape.\<close>

lemma main_classify_ok:
  assumes "operation_result_ok (calc_response l)" and "operation_result_ok (save_response l)"
  shows "main_classify rt l =
     (if success_indicator (calc_response l) \<and> success_indicator (save_response l)
      then (None, l\<lparr>success := True,
                     message := Some (success_message
                                        (clean_result (result_text (calc_response l)))
                                        (result_text (save_response l)))\<rparr>)
      else (None, l\<lparr>success := False, error_message := check_logs,
                     message := Some (failure_message check_logs)\<rparr>))"
proof (cases "success_indicator (calc_response l) \<and> success_indicator (save_response l)")
  case True
  then have "has_result_text (calc_response l)" and "has_result_text (save_response l)"
    using assms
    by (auto simp: operation_result_ok_def success_indicator_def split: json.splits if_splits)
  moreover have "both_succeeded (calc_response l) (save_response l) = Inr True"
    using both_succeeded_ok [OF assms] True by simp
  ultimately show ?thesis
    using True by (simp add: main_classify_success)
next
  case False
  then have "both_succeeded (calc_response l) (save_response l) = Inr False"
    using both_succeeded_ok [OF assms] by simp
  then have "main_classify rt l =
      (None, l\<lparr>success := False, error_message := check_logs,
                message := Some (failure_message check_logs)\<rparr>)"
    by (rule main_classify_failure)
  with False show ?thesis
    by (simp only: if_False)
qed

text \<open>
  C2, as it stands, is refuted: the claim says that the run is classified successful
  whenever both submissions returned a result and the success indicator of each is true.
  With both submissions answered \<^verbatim>\<open>{"success": true}\<close>, an object with no \<^verbatim>\<open>data\<close>, both
  results are there and both indicators are true; line 401 sets the flag, line 402
  raises \<open>KeyError\<close>, the handler resets the flag, and the run ends as a failure whose
  text is not the generic one: it is the Unexpected-Failure text with the key.
\<close>

theorem failure_with_both_indicators_true:
  "calc_response (fst (snd (main_run sample_runtime world_no_data sample_env sample_time))) =
     JDict [(''success'', JBool True)]
   \<and> save_response (fst (snd (main_run sample_runtime world_no_data sample_env sample_time))) =
       JDict [(''success'', JBool True)]
   \<and> JDict [(''success'', JBool True)] \<noteq> JNull
   \<and> success_indicator (JDict [(''success'', JBool True)])
   \<and> fst (main_try sample_runtime world_no_data sample_env sample_time initial_locals []) =
       Some (KeyError (JStr ''data''))
   \<and> fst (main_run sample_runtime world_no_data sample_env sample_time) = None
   \<and> \<not> success (fst (snd (main_run sample_runtime world_no_data sample_env sample_time)))
   \<and> message (fst (snd (main_run sample_runtime world_no_data sample_env sample_time))) =
       Some ([CHR 0xE2, CHR 0x9D, CHR 0x8C] @ '' *Mosenergosbyt Script Unexpected Failure*''
           @ [CHR 0x0A, CHR 0x0A] @ ''Error: '' @ [CHR 0x27] @ ''data'' @ [CHR 0x27])
   \<and> message (fst (snd (main_run sample_runtime world_no_data sample_env sample_time))) \<noteq>
       Some ([CHR 0xE2, CHR 0x9D, CHR 0x8C] @ '' *Mosenergosbyt Operation Failure*''
           @ [CHR 0x0A, CHR 0x0A] @ ''Error: Operation failed. Check logs for details.'')"
proof -
  have "is_Exception (KeyError (JStr ''data''))"
    by (simp add: is_Exception_def)
  from main_run_Exception [OF world_no_data_ok no_data_try this]
  have run: "main_run sample_runtime world_no_data sample_env sample_time =
      (None,
       initial_locals
         \<lparr>session := Some Session,
          calc_response := JDict [(''success'', JBool True)],
          save_response := JDict [(''success'', JBool True)],
          success := False,
          error_message := [CHR 0x27] @ ''data'' @ [CHR 0x27],
          message := Some (unexpected_message ([CHR 0x27] @ ''data'' @ [CHR 0x27]))\<rparr>,
       (sample_billing_trace
         @ [calc_event sample_runtime sample_env (JStr ''M1'') browser_headers (JInt 6)
              [123, 568],
            save_event sample_runtime sample_env (JStr ''M1'') browser_headers (JInt 6)
              [123, 568]])
         @ notifications (telegram_bot_token sample_env)
             (unexpected_message ([CHR 0x27] @ ''data'' @ [CHR 0x27])) (recipients sample_env)
         @ [SessionClose])"
    by (simp add: py_str_def sample_runtime_def teardown_def)
  show ?thesis
    unfolding run
    by (simp add: no_data_try success_indicator_def unexpected_text)
qed

text \<open>
  C2, amended. On a run whose logins and lookup have returned, with the bot API answering
  with JSON objects and both submission results of the documented shape (absent, or an
  object that carries its result text when its success indicator is true): the run ends
  with the success flag true if and only if neither result is absent and the success
  indicator of each is true. Every other combination, one absent result beside a
  successful one included, ends with the flag false and with the fixed message
  \<^verbatim>\<open>Error: Operation failed. Check logs for details.\<close> under the heading
  \<^verbatim>\<open>*Mosenergosbyt Operation Failure*\<close>, sent to every recipient; a successful run sends
  the message built from the two result texts under the heading
  \<^verbatim>\<open>*Mosenergosbyt Operation Success*\<close>. The two requests \<open>ce\<close> and \<open>se\<close>, the texts and
  the request to the bot API are written out.
\<close>

theorem outcome_classification:
  fixes rt :: runtime and w :: world and ev :: env_vars and now :: string
    and vals :: "int list" and session_id provider_id :: json and sess :: session
    and hdrs :: headers and l1 l2 :: locals and tr1 tr2 :: "event list"
    and calc save :: json
    and ce se :: event and generic positive :: string and told :: "string \<Rightarrow> string \<Rightarrow> event"
  defines "ce \<equiv>
      SessionPost
        (mosenergo_lk_url ev @ ''?action=sql&query=bytProxy&session='' @ py_format rt session_id)
        hdrs
        [(''nn_phone'', JStr ''+7 (499) 550-9-550''), (''plugin'', JStr ''bytProxy''),
         (''pr_flat_meter'', JInt 0), (''proxyquery'', JStr ''CalcCharge''),
         (''vl_provider'', provider_id), (''vl_t1'', JInt (vals ! 0)),
         (''vl_t2'', JInt (vals ! 1))]"
    and "se \<equiv>
      SessionPost
        (mosenergo_lk_url ev @ ''?action=sql&query=SaveIndications&session=''
           @ py_format rt session_id)
        hdrs
        [(''plugin'', JStr ''propagateMesInd''), (''pr_flat_meter'', JInt 0),
         (''vl_provider'', provider_id), (''vl_t1'', JInt (vals ! 0)),
         (''vl_t2'', JInt (vals ! 1))]"
    and "generic \<equiv> [CHR 0xE2, CHR 0x9D, CHR 0x8C] @ '' *Mosenergosbyt Operation Failure*''
                      @ [CHR 0x0A, CHR 0x0A]
                      @ ''Error: Operation failed. Check logs for details.''"
    and "positive \<equiv> [CHR 0xE2, CHR 0x9C, CHR 0x85] @ '' *Mosenergosbyt Operation Success*''
                   @ [CHR 0x0A, CHR 0x0A] @ clean_result (result_text calc) @ [CHR 0x0A]
                   @ result_text save"
    and "told \<equiv> \<lambda>body chat. Post (''https://api.telegram.org/bot'' @ telegram_bot_token ev
                                     @ ''/sendMessage'') []
                                [(''chat_id'', JStr chat), (''text'', JStr body),
                                 (''parse_mode'', JStr ''Markdown'')]"
  assumes "notifier_answers_ok w"
    and "main_metering rt w ev now initial_locals [] = (Inr vals, l1, tr1)"
    and "main_billing rt w ev l1 tr1 = (Inr (session_id, sess, hdrs, provider_id), l2, tr2)"
    and "calc = returned (w (tr2 @ [ce]))"
    and "save = returned (w (tr2 @ [ce, se]))"
    and "operation_result_ok calc"
    and "operation_result_ok save"
  shows "fst (main_run rt w ev now) = None
     \<and> calc_response (fst (snd (main_run rt w ev now))) = calc
     \<and> save_response (fst (snd (main_run rt w ev now))) = save
     \<and> (success (fst (snd (main_run rt w ev now))) \<longleftrightarrow>
          calc \<noteq> JNull \<and> save \<noteq> JNull \<and> success_indicator calc \<and> success_indicator save)
     \<and> message (fst (snd (main_run rt w ev now))) =
         Some (if success (fst (snd (main_run rt w ev now))) then positive else generic)
     \<and> snd (snd (main_run rt w ev now)) =
         tr2 @ [ce, se]
           @ map (told (if success (fst (snd (main_run rt w ev now))) then positive else generic))
               (py_split CHR '','' (telegram_chat_id ev))
           @ [SessionClose]"
proof -
  have ce: "ce = calc_event rt ev session_id hdrs provider_id vals"
    by (simp add: ce_def calc_event_literal)
  have se: "se = save_event rt ev session_id hdrs provider_id vals"
    by (simp add: se_def save_event_literal)
  have generic: "generic = failure_message check_logs"
    by (simp add: generic_def failure_text)
  have finished: "positive = success_message (clean_result (result_text calc)) (result_text save)"
    by (simp add: positive_def success_text)
  have told: "map (told body) (py_split CHR '','' (telegram_chat_id ev)) =
      notifications (telegram_bot_token ev) body (recipients ev)" for body
    unfolding told_def by (simp add: notifications_literal)
  let ?l = "l2\<lparr>calc_response := calc, save_response := save\<rparr>"
  have shape: "operation_result_ok (calc_response ?l)" "operation_result_ok (save_response ?l)"
    using assms(11,12) by simp_all
  note classify = main_classify_ok [OF shape, of rt, simplified]
  show ?thesis
  proof (cases "success_indicator calc \<and> success_indicator save")
    case True
    then have absent: "calc \<noteq> JNull" "save \<noteq> JNull"
      using success_indicator_absent by auto
    from True classify have c: "main_classify rt ?l =
        (None, ?l\<lparr>success := True,
                   message := Some (success_message (clean_result (result_text calc))
                                      (result_text save))\<rparr>)"
      by simp
    have "main_run rt w ev now =
        (None, ?l\<lparr>success := True,
                   message := Some (success_message (clean_result (result_text calc))
                                      (result_text save))\<rparr>,
         tr2 @ [ce, se]
           @ notifications (telegram_bot_token ev)
               (success_message (clean_result (result_text calc)) (result_text save))
               (recipients ev)
           @ [SessionClose])"
      using main_run_submitted [OF assms(6,7,8) c [unfolded assms(9,10) ce se]]
      by (simp add: assms(9,10) ce se)
    with True absent show ?thesis
      unfolding told finished
      by simp
  next
    case False
    from False classify have c: "main_classify rt ?l =
        (None, ?l\<lparr>success := False, error_message := check_logs,
                   message := Some (failure_message check_logs)\<rparr>)"
      by auto
    have "main_run rt w ev now =
        (None, ?l\<lparr>success := False, error_message := check_logs,
                   message := Some (failure_message check_logs)\<rparr>,
         tr2 @ [ce, se]
           @ notifications (telegram_bot_token ev) (failure_message check_logs) (recipients ev)
           @ [SessionClose])"
      using main_run_submitted [OF assms(6,7,8) c [unfolded assms(9,10) ce se]]
      by (simp add: assms(9,10) ce se)
    with False show ?thesis
      unfolding told generic
      by auto
  qed
qed

lemma sample_results_ok:
  "operation_result_ok
     (JDict [(''success'', JBool True),
             (''data'', JList [JDict [(''nm_result'', JStr t)]])])"
  by (simp add: operation_result_ok_def success_indicator_def has_result_text_def)

lemma sample_result_text:
  "result_text
     (JDict [(''success'', JBool True),
             (''data'', JList [JDict [(''nm_result'', JStr t)]])]) = t"
  by (simp add: result_text_def nm_result_def)

lemma calc_fails_responses:
  "returned (world_calc_fails
      (sample_billing_trace
         @ [calc_event rt sample_env (JStr ''M1'') browser_headers (JInt 6) [123, 568]])) =
     JNull"
  "returned (world_calc_fails
      (sample_billing_trace
         @ [calc_event rt sample_env (JStr ''M1'') browser_headers (JInt 6) [123, 568],
            save_event rt sample_env (JStr ''M1'') browser_headers (JInt 6) [123, 568]])) =
     JDict [(''success'', JBool True),
            (''data'', JList [JDict [(''nm_result'', JStr ''saved'')]])]"
  by (simp_all add: world_calc_fails_def scripted_def is_request_def sample_billing_trace_def
        sample_metering_trace_def sample_login_event_def calc_event_def save_event_def
        returned_def submission_ok_def)

lemma absent_result_ok: "operation_result_ok JNull"
  by (simp add: operation_result_ok_def)

theorem outcome_classification_witness:
  "notifier_answers_ok world_success
   \<and> operation_result_ok
        (JDict [(''success'', JBool True),
                (''data'', JList [JDict [(''nm_result'',
                                          JStr (font_open @ ''<b>12 rub</b></font>''))]])])
   \<and> operation_result_ok
        (JDict [(''success'', JBool True),
                (''data'', JList [JDict [(''nm_result'', JStr ''<b>saved</b>'')]])])
   \<and> fst (main_run sample_runtime world_success sample_env sample_time) = None
   \<and> success (fst (snd (main_run sample_runtime world_success sample_env sample_time)))
   \<and> calc_response (fst (snd (main_run sample_runtime world_success sample_env sample_time))) =
       JDict [(''success'', JBool True),
              (''data'', JList [JDict [(''nm_result'',
                                        JStr (font_open @ ''<b>12 rub</b></font>''))]])]
   \<and> message (fst (snd (main_run sample_runtime world_success sample_env sample_time))) =
       Some ([CHR 0xE2, CHR 0x9C, CHR 0x85] @ '' *Mosenergosbyt Operation Success*''
           @ [CHR 0x0A, CHR 0x0A] @ ''**12 rub**'' @ [CHR 0x0A] @ ''<b>saved</b>'')
   \<and> notifier_answers_ok world_calc_fails
   \<and> operation_result_ok JNull
   \<and> operation_result_ok
        (JDict [(''success'', JBool True),
                (''data'', JList [JDict [(''nm_result'', JStr ''saved'')]])])
   \<and> fst (main_run sample_runtime world_calc_fails sample_env sample_time) = None
   \<and> calc_response
        (fst (snd (main_run sample_runtime world_calc_fails sample_env sample_time))) = JNull
   \<and> save_response
        (fst (snd (main_run sample_runtime world_calc_fails sample_env sample_time))) =
       JDict [(''success'', JBool True),
              (''data'', JList [JDict [(''nm_result'', JStr ''saved'')]])]
   \<and> \<not> success (fst (snd (main_run sample_runtime world_calc_fails sample_env sample_time)))
   \<and> message (fst (snd (main_run sample_runtime world_calc_fails sample_env sample_time))) =
       Some ([CHR 0xE2, CHR 0x9D, CHR 0x8C] @ '' *Mosenergosbyt Operation Failure*''
           @ [CHR 0x0A, CHR 0x0A] @ ''Error: Operation failed. Check logs for details.'')
   \<and> snd (snd (main_run sample_runtime world_calc_fails sample_env sample_time)) =
       sample_billing_trace
         @ [SessionPost ''https://m?action=sql&query=bytProxy&session=M1'' browser_headers
           [(''nn_phone'', JStr ''+7 (499) 550-9-550''), (''plugin'', JStr ''bytProxy''),
            (''pr_flat_meter'', JInt 0), (''proxyquery'', JStr ''CalcCharge''),
            (''vl_provider'', JInt 6), (''vl_t1'', JInt 123), (''vl_t2'', JInt 568)],
            SessionPost ''https://m?action=sql&query=SaveIndications&session=M1'' browser_headers
           [(''plugin'', JStr ''propagateMesInd''), (''pr_flat_meter'', JInt 0),
            (''vl_provider'', JInt 6), (''vl_t1'', JInt 123), (''vl_t2'', JInt 568)],
            Post ''https://api.telegram.org/bottok/sendMessage'' []
           [(''chat_id'', JStr ''1''),
            (''text'',
             JStr ([CHR 0xE2, CHR 0x9D, CHR 0x8C] @ '' *Mosenergosbyt Operation Failure*''
           @ [CHR 0x0A, CHR 0x0A] @ ''Error: Operation failed. Check logs for details.'')),
            (''parse_mode'', JStr ''Markdown'')],
            Post ''https://api.telegram.org/bottok/sendMessage'' []
           [(''chat_id'', JStr ''2''),
            (''text'',
             JStr ([CHR 0xE2, CHR 0x9D, CHR 0x8C] @ '' *Mosenergosbyt Operation Failure*''
           @ [CHR 0x0A, CHR 0x0A] @ ''Error: Operation failed. Check logs for details.'')),
            (''parse_mode'', JStr ''Markdown'')],
            SessionClose]"
proof -
  have m: "main_metering sample_runtime world_success sample_env sample_time
      initial_locals [] = (Inr [123, 568], initial_locals, sample_metering_trace)"
    unfolding world_success_def by (rule sample_metering)
  have b: "main_billing sample_runtime world_success sample_env initial_locals
      sample_metering_trace =
      (Inr (JStr ''M1'', Session, browser_headers, JInt 6),
       initial_locals\<lparr>session := Some Session\<rparr>, sample_billing_trace)"
    unfolding world_success_def by (rule sample_billing)
  have m': "main_metering sample_runtime world_calc_fails sample_env sample_time
      initial_locals [] = (Inr [123, 568], initial_locals, sample_metering_trace)"
    unfolding world_calc_fails_def by (rule sample_metering)
  have b': "main_billing sample_runtime world_calc_fails sample_env initial_locals
      sample_metering_trace =
      (Inr (JStr ''M1'', Session, browser_headers, JInt 6),
       initial_locals\<lparr>session := Some Session\<rparr>, sample_billing_trace)"
    unfolding world_calc_fails_def by (rule sample_billing)
  note rule = outcome_classification
      [unfolded calc_event_literal [symmetric] save_event_literal [symmetric]]
  note good = rule [OF world_success_ok m b
      success_responses(1) [symmetric] success_responses(2) [symmetric]
      sample_results_ok sample_results_ok]
  note bad = rule [OF world_calc_fails_ok m' b'
      calc_fails_responses(1) [symmetric] calc_fails_responses(2) [symmetric]
      absent_result_ok sample_results_ok]
  have first: "fst (main_run sample_runtime world_success sample_env sample_time) = None
    \<and> success (fst (snd (main_run sample_runtime world_success sample_env sample_time)))
    \<and> calc_response (fst (snd (main_run sample_runtime world_success sample_env sample_time))) =
       JDict [(''success'', JBool True),
              (''data'', JList [JDict [(''nm_result'',
                                        JStr (font_open @ ''<b>12 rub</b></font>''))]])]"
    using good by (simp add: success_indicator_def)
  then have second:
    "message (fst (snd (main_run sample_runtime world_success sample_env sample_time))) =
       Some ([CHR 0xE2, CHR 0x9C, CHR 0x85] @ '' *Mosenergosbyt Operation Success*''
           @ [CHR 0x0A, CHR 0x0A] @ ''**12 rub**'' @ [CHR 0x0A] @ ''<b>saved</b>'')"
    using good by (simp add: sample_result_text clean_sample)
  have third: "fst (main_run sample_runtime world_calc_fails sample_env sample_time) = None
    \<and> calc_response
        (fst (snd (main_run sample_runtime world_calc_fails sample_env sample_time))) = JNull
    \<and> save_response
        (fst (snd (main_run sample_runtime world_calc_fails sample_env sample_time))) =
       JDict [(''success'', JBool True),
              (''data'', JList [JDict [(''nm_result'', JStr ''saved'')]])]
    \<and> \<not> success (fst (snd (main_run sample_runtime world_calc_fails sample_env sample_time)))"
    using bad by simp
  then have fourth:
    "message (fst (snd (main_run sample_runtime world_calc_fails sample_env sample_time))) =
       Some ([CHR 0xE2, CHR 0x9D, CHR 0x8C] @ '' *Mosenergosbyt Operation Failure*''
           @ [CHR 0x0A, CHR 0x0A] @ ''Error: Operation failed. Check logs for details.'')
     \<and> snd (snd (main_run sample_runtime world_calc_fails sample_env sample_time)) =
       sample_billing_trace
         @ [SessionPost ''https://m?action=sql&query=bytProxy&session=M1'' browser_headers
           [(''nn_phone'', JStr ''+7 (499) 550-9-550''), (''plugin'', JStr ''bytProxy''),
            (''pr_flat_meter'', JInt 0), (''proxyquery'', JStr ''CalcCharge''),
            (''vl_provider'', JInt 6), (''vl_t1'', JInt 123), (''vl_t2'', JInt 568)],
            SessionPost ''https://m?action=sql&query=SaveIndications&session=M1'' browser_headers
           [(''plugin'', JStr ''propagateMesInd''), (''pr_flat_meter'', JInt 0),
            (''vl_provider'', JInt 6), (''vl_t1'', JInt 123), (''vl_t2'', JInt 568)],
            Post ''https://api.telegram.org/bottok/sendMessage'' []
           [(''chat_id'', JStr ''1''),
            (''text'',
             JStr ([CHR 0xE2, CHR 0x9D, CHR 0x8C] @ '' *Mosenergosbyt Operation Failure*''
           @ [CHR 0x0A, CHR 0x0A] @ ''Error: Operation failed. Check logs for details.'')),
            (''parse_mode'', JStr ''Markdown'')],
            Post ''https://api.telegram.org/bottok/sendMessage'' []
           [(''chat_id'', JStr ''2''),
            (''text'',
             JStr ([CHR 0xE2, CHR 0x9D, CHR 0x8C] @ '' *Mosenergosbyt Operation Failure*''
           @ [CHR 0x0A, CHR 0x0A] @ ''Error: Operation failed. Check logs for details.'')),
            (''parse_mode'', JStr ''Markdown'')],
            SessionClose]"
    using bad unfolding sample_chats
    by (simp add: sample_token sample_calc_event sample_save_event)
  from first second third fourth show ?thesis
    by (simp add: world_success_ok world_calc_fails_ok sample_results_ok absent_result_ok)
qed

section \<open>Properties of \<^verbatim>\<open>send_mosenergo_data\<close>\<close>

lemma dict_update_Nil: "dict_update d [] = d"
  by (simp add: dict_update_def)

lemma map_of_dict_update_Cons:
  "map_of (dict_update d (kv # kvs)) = map_of (dict_update (AList.update (fst kv) (snd kv) d) kvs)"
  by (simp add: dict_update_def)

text \<open>
  C9. Called with at least two readings, \<^verbatim>\<open>send_mosenergo_data\<close> leaves the caller's
  dictionary with the keys \<^verbatim>\<open>vl_provider\<close>, \<^verbatim>\<open>vl_t1\<close> and \<^verbatim>\<open>vl_t2\<close> set to the provider id
  and the first two readings, and for CalcCharge with \<^verbatim>\<open>proxyquery\<close> set as well; every
  other key keeps its value. The dictionary afterwards is the same in every world, so
  whatever the request is answered, a failure included.
\<close>

theorem payload_updated_in_place:
  assumes "2 \<le> length vals"
  shows "fst (snd (send_mosenergo_data rt w lk_url session_id sess hdrs provider_id vals
                     query_type base tr)) =
         fst (snd (send_mosenergo_data rt w' lk_url session_id sess hdrs provider_id vals
                     query_type base tr))
     \<and> map_of (fst (snd (send_mosenergo_data rt w lk_url session_id sess hdrs provider_id vals
                           query_type base tr))) =
         (if query_type = ''CalcCharge''
          then (map_of base)(''proxyquery'' \<mapsto> JStr ''CalcCharge'', ''vl_provider'' \<mapsto> provider_id,
                             ''vl_t1'' \<mapsto> JInt (vals ! 0), ''vl_t2'' \<mapsto> JInt (vals ! 1))
          else (map_of base)(''vl_provider'' \<mapsto> provider_id, ''vl_t1'' \<mapsto> JInt (vals ! 0),
                             ''vl_t2'' \<mapsto> JInt (vals ! 1)))
     \<and> dom (map_of (fst (snd (send_mosenergo_data rt w lk_url session_id sess hdrs provider_id
                                 vals query_type base tr)))) =
         dom (map_of base)
           \<union> (if query_type = ''CalcCharge''
              then {''proxyquery'', ''vl_provider'', ''vl_t1'', ''vl_t2''}
              else {''vl_provider'', ''vl_t1'', ''vl_t2''})"
proof -
  have m: "map_of (fst (snd (send_mosenergo_data rt w lk_url session_id sess hdrs provider_id
                           vals query_type base tr))) =
         (if query_type = ''CalcCharge''
          then (map_of base)(''proxyquery'' \<mapsto> JStr ''CalcCharge'', ''vl_provider'' \<mapsto> provider_id,
                             ''vl_t1'' \<mapsto> JInt (vals ! 0), ''vl_t2'' \<mapsto> JInt (vals ! 1))
          else (map_of base)(''vl_provider'' \<mapsto> provider_id, ''vl_t1'' \<mapsto> JInt (vals ! 0),
                             ''vl_t2'' \<mapsto> JInt (vals ! 1)))"
    by (simp add: send_mosenergo_data_eq [OF assms] Let_def update_conv'
          map_of_dict_update_Cons dict_update_Nil)
  have "fst (snd (send_mosenergo_data rt w lk_url session_id sess hdrs provider_id vals
                     query_type base tr)) =
         fst (snd (send_mosenergo_data rt w' lk_url session_id sess hdrs provider_id vals
                     query_type base tr))"
    by (simp add: send_mosenergo_data_eq [OF assms] Let_def)
  moreover have "dom (map_of (fst (snd (send_mosenergo_data rt w lk_url session_id sess hdrs
                                 provider_id vals query_type base tr)))) =
         dom (map_of base)
           \<union> (if query_type = ''CalcCharge''
              then {''proxyquery'', ''vl_provider'', ''vl_t1'', ''vl_t2''}
              else {''vl_provider'', ''vl_t1'', ''vl_t2''})"
    unfolding m by auto
  ultimately show ?thesis
    using m by simp
qed

theorem payload_updated_in_place_witness:
  "2 \<le> length [123, 568 :: int]
   \<and> map_of (fst (snd (send_mosenergo_data sample_runtime (\<lambda>tr. RequestException) ''https://m''
                         (JStr ''M1'') Session browser_headers (JInt 6) [123, 568]
                         ''CalcCharge'' calc_payload []))) ''vl_t2'' = Some (JInt 568)
   \<and> map_of (fst (snd (send_mosenergo_data sample_runtime (\<lambda>tr. RequestException) ''https://m''
                         (JStr ''M1'') Session browser_headers (JInt 6) [123, 568]
                         ''CalcCharge'' calc_payload []))) ''proxyquery'' =
       Some (JStr ''CalcCharge'')
   \<and> map_of (fst (snd (send_mosenergo_data sample_runtime (\<lambda>tr. RequestException) ''https://m''
                         (JStr ''M1'') Session browser_headers (JInt 6) [123, 568]
                         ''CalcCharge'' calc_payload []))) ''plugin'' = Some (JStr ''bytProxy'')"
proof -
  have two: "2 \<le> length [123, 568 :: int]"
    by simp
  from payload_updated_in_place [OF two, of sample_runtime "\<lambda>tr. RequestException" "''https://m''"
      "JStr ''M1''" Session browser_headers "JInt 6" "''CalcCharge''" calc_payload "[]"]
  show ?thesis
    by (simp add: calc_payload_def)
qed

text \<open>
  C10. A \<^verbatim>\<open>query_type\<close> that is not the string \<^verbatim>\<open>CalcCharge\<close> is handled as
  \<^verbatim>\<open>SaveIndications\<close> is: the call returns the same result, leaves the same dictionary
  and the same trace. With two readings at hand that is one request to the
  SaveIndications URL, carrying the base dictionary with the three keys set and no
  \<^verbatim>\<open>proxyquery\<close>, and the result is what the request was answered, never an error raised
  for the unknown kind.
\<close>

theorem other_query_types_are_SaveIndications:
  assumes "query_type \<noteq> ''CalcCharge''"
  shows "send_mosenergo_data rt w lk_url session_id sess hdrs provider_id vals query_type base tr =
         send_mosenergo_data rt w lk_url session_id sess hdrs provider_id vals
           ''SaveIndications'' base tr
     \<and> (2 \<le> length vals \<longrightarrow>
          send_mosenergo_data rt w lk_url session_id sess hdrs provider_id vals query_type base tr =
            (Inr (returned
                    (w (tr @ [SessionPost (save_url rt lk_url session_id) hdrs
                                (dict_update base
                                   [(''vl_provider'', provider_id),
                                    (''vl_t1'', JInt (vals ! 0)),
                                    (''vl_t2'', JInt (vals ! 1))])]))),
             dict_update base
               [(''vl_provider'', provider_id), (''vl_t1'', JInt (vals ! 0)),
                (''vl_t2'', JInt (vals ! 1))],
             tr @ [SessionPost (save_url rt lk_url session_id) hdrs
                     (dict_update base
                        [(''vl_provider'', provider_id), (''vl_t1'', JInt (vals ! 0)),
                         (''vl_t2'', JInt (vals ! 1))])]))"
proof (intro conjI impI)
  show "send_mosenergo_data rt w lk_url session_id sess hdrs provider_id vals query_type base tr =
         send_mosenergo_data rt w lk_url session_id sess hdrs provider_id vals
           ''SaveIndications'' base tr"
    using assms by (simp add: send_mosenergo_data_def)
next
  assume "2 \<le> length vals"
  then show "send_mosenergo_data rt w lk_url session_id sess hdrs provider_id vals query_type
        base tr =
            (Inr (returned
                    (w (tr @ [SessionPost (save_url rt lk_url session_id) hdrs
                                (dict_update base
                                   [(''vl_provider'', provider_id),
                                    (''vl_t1'', JInt (vals ! 0)),
                                    (''vl_t2'', JInt (vals ! 1))])]))),
             dict_update base
               [(''vl_provider'', provider_id), (''vl_t1'', JInt (vals ! 0)),
                (''vl_t2'', JInt (vals ! 1))],
             tr @ [SessionPost (save_url rt lk_url session_id) hdrs
                     (dict_update base
                        [(''vl_provider'', provider_id), (''vl_t1'', JInt (vals ! 0)),
                         (''vl_t2'', JInt (vals ! 1))])])"
    using assms by (simp add: send_mosenergo_data_eq Let_def)
qed

theorem other_query_types_are_SaveIndications_witness:
  "''Refund'' \<noteq> ''CalcCharge''
   \<and> send_mosenergo_data sample_runtime (\<lambda>tr. Body (JDict [])) ''https://m'' (JStr ''M1'')
        Session browser_headers (JInt 6) [123, 568] ''Refund'' save_payload [] =
       (Inr (JDict []),
        [(''plugin'', JStr ''propagateMesInd''), (''pr_flat_meter'', JInt 0),
         (''vl_provider'', JInt 6), (''vl_t1'', JInt 123), (''vl_t2'', JInt 568)],
        [SessionPost ''https://m?action=sql&query=SaveIndications&session=M1'' browser_headers
           [(''plugin'', JStr ''propagateMesInd''), (''pr_flat_meter'', JInt 0),
            (''vl_provider'', JInt 6), (''vl_t1'', JInt 123), (''vl_t2'', JInt 568)]])"
proof -
  have other: "''Refund'' \<noteq> ''CalcCharge''"
    by simp
  have two: "2 \<le> length [123, 568 :: int]"
    by simp
  note inst = other_query_types_are_SaveIndications [OF other, of sample_runtime
      "\<lambda>tr. Body (JDict [])" "''https://m''" "JStr ''M1''" Session browser_headers "JInt 6"
      "[123, 568]" save_payload "[]", THEN conjunct2, rule_format, OF two]
  show ?thesis
    unfolding inst
    by (simp add: save_payload_def dict_update_def save_url_def py_format_def returned_def)
qed

end
